theory Spec2Isabelle
  imports Main "HOL-Library.Word" "HOL-Library.Multiset"
begin

section \<open>Basic types\<close>

text \<open>
  \<open>ParamId\<close>, \<open>Timestamp\<close> and \<open>LogicAddr\<close> are unsigned 64-bit integers. A double is
  carried as its 64-bit pattern: the column store only moves it around.
\<close>

type_synonym u8 = "8 word"
type_synonym u16 = "16 word"
type_synonym u32 = "32 word"
type_synonym u64 = "64 word"
type_synonym ParamId = u64
type_synonym Timestamp = u64
type_synonym LogicAddr = u64
type_synonym double = u64

text \<open>The payload of a sample: \<open>float64\<close>, \<open>size\<close>, \<open>type\<close> and the trailing bytes \<open>data\<close>.\<close>

record PData =
  float64 :: double
  psize :: u16
  ptype :: u16
  pdata :: "u8 list"

record Sample =
  paramid :: ParamId
  timestamp :: Timestamp
  payload :: PData

text \<open>The results of an append to a tree.\<close>

datatype NBTreeAppendResult = OK | OK_FLUSH_NEEDED | FAIL_BAD_ID | FAIL_BAD_VALUE

text \<open>
  The status codes of \<open>stdb/common/status.h\<close>, a header that is not among the sources:
  the codes the specification lists in section 6.
\<close>

datatype Status =
  Ok | BadArg | BadData | NotFound | Overflow | QueryParsingError | DBError | Cancelled

text \<open>
  The constants of \<open>stdb/common/basic.h\<close> that the column store reads. The header is not
  among the sources, so the functions below take the constants as a parameter.
\<close>

record basic_h =
  PAYLOAD_FLOAT :: u16
  PAYLOAD_EVENT :: u16
  sizeof_Sample :: u32

section \<open>The interface of NBTreeExtentsList used by the column store\<close>

text \<open>
  \<open>stdb/storage/nbtree.h\<close> is not among the sources. The column store calls the
  methods below on a tree; they are passed in as a record of functions over an arbitrary
  tree type \<open>'t\<close>. The three overloads of \<open>append\<close> get three names:
  \<open>append_float\<close> is \<open>append(ts, value)\<close>, \<open>append_event\<close> is \<open>append(ts, pdata, sz)\<close>
  and \<open>append_recovery\<close> is \<open>append(ts, value, allow_duplicates)\<close>.
\<close>

record 't tree_api =
  append_float :: "'t \<Rightarrow> Timestamp \<Rightarrow> double \<Rightarrow> NBTreeAppendResult \<times> 't"
  append_event :: "'t \<Rightarrow> Timestamp \<Rightarrow> u8 list \<Rightarrow> u32 \<Rightarrow> NBTreeAppendResult \<times> 't"
  append_recovery :: "'t \<Rightarrow> Timestamp \<Rightarrow> double \<Rightarrow> bool \<Rightarrow> NBTreeAppendResult \<times> 't"
  get_roots :: "'t \<Rightarrow> LogicAddr list"
  is_initialized :: "'t \<Rightarrow> bool"
  force_init :: "'t \<Rightarrow> 't"

section \<open>ColumnStore and CStoreSession (stdb/storage/column\_store.cc)\<close>

text \<open>
  \<open>columns_\<close> and a session's \<open>cache_\<close> hold shared pointers to the same trees, so the
  trees live in a store \<open>heap\<close> from addresses to trees, and both tables map a series id
  to an address.
\<close>

type_synonym 't heap = "nat \<Rightarrow> 't"
type_synonym table = "ParamId \<rightharpoonup> nat"

text \<open>\<open>std::unordered_map::insert\<close> keeps the old entry when the key is present.\<close>

definition map_insert :: "table \<Rightarrow> ParamId \<Rightarrow> nat \<Rightarrow> table" where
  "map_insert m k v = (case m k of None \<Rightarrow> m(k \<mapsto> v) | Some _ \<Rightarrow> m)"

text \<open>
  \<open>ColumnStore::write\<close>. The result is the append status, the store of trees, the
  \<open>rescue_points\<close> output and the cache (\<open>None\<close> for a null \<open>cache_or_null\<close>).
\<close>

definition ColumnStore_write ::
  "basic_h \<Rightarrow> 't tree_api \<Rightarrow> table \<Rightarrow> Sample \<Rightarrow> 't heap \<Rightarrow> LogicAddr list \<Rightarrow> table option
     \<Rightarrow> NBTreeAppendResult \<times> 't heap \<times> LogicAddr list \<times> table option" where
  "ColumnStore_write K api columns sample heap rescue_points cache_or_null =
     (let id = paramid sample in
      case columns id of
        Some tree \<Rightarrow>
          (let (res, heap1) =
                 (if ptype (payload sample) = PAYLOAD_FLOAT K then
                    (let (r, t) = append_float api (heap tree) (timestamp sample)
                                    (float64 (payload sample))
                     in (r, heap(tree := t)))
                  else if ptype (payload sample) = PAYLOAD_EVENT K then
                    (let sz = ucast (psize (payload sample)) - sizeof_Sample K;
                         (r, t) = append_event api (heap tree) (timestamp sample)
                                    (pdata (payload sample)) sz
                     in (r, heap(tree := t)))
                  else (OK, heap));
               rescue_points1 =
                 (if res = OK_FLUSH_NEEDED then get_roots api (heap1 tree) else rescue_points);
               cache1 =
                 (case cache_or_null of
                    None \<Rightarrow> None
                  | Some cache \<Rightarrow> Some (map_insert cache id tree))
           in (res, heap1, rescue_points1, cache1))
      | None \<Rightarrow> (FAIL_BAD_ID, heap, rescue_points, cache_or_null))"

text \<open>\<open>ColumnStore::recovery_write\<close>: the payload type is not read.\<close>

definition ColumnStore_recovery_write ::
  "'t tree_api \<Rightarrow> table \<Rightarrow> Sample \<Rightarrow> bool \<Rightarrow> 't heap \<Rightarrow> NBTreeAppendResult \<times> 't heap" where
  "ColumnStore_recovery_write api columns sample allow_duplicates heap =
     (let id = paramid sample in
      case columns id of
        Some tree \<Rightarrow>
          (let (r, t) = append_recovery api (heap tree) (timestamp sample)
                          (float64 (payload sample)) allow_duplicates
           in (r, heap(tree := t)))
      | None \<Rightarrow> (FAIL_BAD_ID, heap))"

text \<open>
  \<open>CStoreSession::write\<close>. The result is the append status, the store of trees, the
  \<open>rescue_points\<close> output and the session's \<open>cache_\<close>.
\<close>

definition CStoreSession_write ::
  "basic_h \<Rightarrow> 't tree_api \<Rightarrow> table \<Rightarrow> table \<Rightarrow> Sample \<Rightarrow> 't heap \<Rightarrow> LogicAddr list
     \<Rightarrow> NBTreeAppendResult \<times> 't heap \<times> LogicAddr list \<times> table" where
  "CStoreSession_write K api columns cache sample heap rescue_points =
     (if ptype (payload sample) = PAYLOAD_FLOAT K then
        (case cache (paramid sample) of
           Some it \<Rightarrow>
             (let (res, t) = append_float api (heap it) (timestamp sample)
                               (float64 (payload sample));
                  heap1 = heap(it := t)
              in (res, heap1,
                  if res = OK_FLUSH_NEEDED then get_roots api (heap1 it) else rescue_points,
                  cache))
         | None \<Rightarrow>
             (case ColumnStore_write K api columns sample heap rescue_points (Some cache) of
                (res, heap1, rescue_points1, cache1) \<Rightarrow>
                  (res, heap1, rescue_points1, case cache1 of Some c \<Rightarrow> c | None \<Rightarrow> cache)))
      else if ptype (payload sample) = PAYLOAD_EVENT K then
        (let sz = ucast (psize (payload sample)) - sizeof_Sample K in
         case cache (paramid sample) of
           Some it \<Rightarrow>
             (let (res, t) = append_event api (heap it) (timestamp sample)
                               (pdata (payload sample)) sz;
                  heap1 = heap(it := t)
              in (res, heap1,
                  if res = OK_FLUSH_NEEDED then get_roots api (heap1 it) else rescue_points,
                  cache))
         | None \<Rightarrow>
             (case ColumnStore_write K api columns sample heap rescue_points (Some cache) of
                (res, heap1, rescue_points1, cache1) \<Rightarrow>
                  (res, heap1, rescue_points1, case cache1 of Some c \<Rightarrow> c | None \<Rightarrow> cache)))
      else (FAIL_BAD_VALUE, heap, rescue_points, cache))"

section \<open>Reading: ColumnStore::iterate and the operations built on it (column\_store.h)\<close>

text \<open>
  \<open>ColumnStore::iterate\<close>: the loop over \<open>ids\<close>. \<open>fn\<close> builds the operator of one tree
  and returns it with a status; \<open>dest\<close> is the output vector. A tree that is not
  initialized is initialized in place first, so the store of trees is part of the result.
\<close>

fun iterate ::
  "'t tree_api \<Rightarrow> table \<Rightarrow> ('t \<Rightarrow> Status \<times> 'it) \<Rightarrow> ParamId list \<Rightarrow> 't heap \<Rightarrow> 'it list
     \<Rightarrow> Status \<times> 't heap \<times> 'it list" where
  "iterate api columns fn [] heap dest = (Ok, heap, dest)"
| "iterate api columns fn (i # ids) heap dest =
     (case columns i of
        Some it \<Rightarrow>
          (let heap1 = (if \<not> is_initialized api (heap it)
                        then heap(it := force_init api (heap it)) else heap);
               (s, iter) = fn (heap1 it)
           in if s \<noteq> Ok then (s, heap1, dest)
              else iterate api columns fn ids heap1 (dest @ [iter]))
      | None \<Rightarrow> (NotFound, heap, dest))"

text \<open>
  The seven read operations. Each passes its lambda to \<open>iterate\<close>; the methods of the
  tree that the lambda calls (\<open>search\<close>, \<open>filter\<close>, \<open>aggregate\<close>, ...) are parameters,
  as are \<open>get_id\<close> and the \<open>mask\<close> and \<open>bitmap\<close> fields of the two filter structs.
  In \<open>filter\<close> and \<open>group_aggfilter\<close> the lambda returns a null pointer next to
  \<open>BadArg\<close>, so the operators of these two are optional values.
\<close>

definition scan ::
  "'t tree_api \<Rightarrow> ('t \<Rightarrow> Timestamp \<Rightarrow> Timestamp \<Rightarrow> 'it) \<Rightarrow> table \<Rightarrow> ParamId list
     \<Rightarrow> Timestamp \<Rightarrow> Timestamp \<Rightarrow> 't heap \<Rightarrow> 'it list \<Rightarrow> Status \<times> 't heap \<times> 'it list" where
  "scan api search columns ids tbegin tend heap dest =
     iterate api columns (\<lambda>elist. (Ok, search elist tbegin tend)) ids heap dest"

definition scan_events ::
  "'t tree_api \<Rightarrow> ('t \<Rightarrow> Timestamp \<Rightarrow> Timestamp \<Rightarrow> 'it) \<Rightarrow> table \<Rightarrow> ParamId list
     \<Rightarrow> Timestamp \<Rightarrow> Timestamp \<Rightarrow> 't heap \<Rightarrow> 'it list \<Rightarrow> Status \<times> 't heap \<times> 'it list" where
  "scan_events api search_binary columns ids tbegin tend heap dest =
     iterate api columns (\<lambda>elist. (Ok, search_binary elist tbegin tend)) ids heap dest"

definition filter_events ::
  "'t tree_api \<Rightarrow> ('t \<Rightarrow> Timestamp \<Rightarrow> Timestamp \<Rightarrow> string \<Rightarrow> 'it) \<Rightarrow> table \<Rightarrow> ParamId list
     \<Rightarrow> Timestamp \<Rightarrow> Timestamp \<Rightarrow> string \<Rightarrow> 't heap \<Rightarrow> 'it list
     \<Rightarrow> Status \<times> 't heap \<times> 'it list" where
  "filter_events api filter_binary columns ids tbegin tend expr heap dest =
     iterate api columns (\<lambda>elist. (Ok, filter_binary elist tbegin tend expr)) ids heap dest"

definition filter_values ::
  "'t tree_api \<Rightarrow> ('t \<Rightarrow> ParamId) \<Rightarrow> ('vf \<Rightarrow> int)
     \<Rightarrow> ('t \<Rightarrow> Timestamp \<Rightarrow> Timestamp \<Rightarrow> 'vf \<Rightarrow> 'it) \<Rightarrow> ('t \<Rightarrow> Timestamp \<Rightarrow> Timestamp \<Rightarrow> 'it)
     \<Rightarrow> table \<Rightarrow> ParamId list \<Rightarrow> Timestamp \<Rightarrow> Timestamp \<Rightarrow> (ParamId \<rightharpoonup> 'vf)
     \<Rightarrow> 't heap \<Rightarrow> 'it option list \<Rightarrow> Status \<times> 't heap \<times> 'it option list" where
  "filter_values api get_id flt_mask tree_filter search columns ids tbegin tend filters heap dest =
     iterate api columns
       (\<lambda>elist.
          case filters (get_id elist) of
            Some flt \<Rightarrow>
              if flt_mask flt \<noteq> 0 then (Ok, Some (tree_filter elist tbegin tend flt))
              else (Ok, Some (search elist tbegin tend))
          | None \<Rightarrow> (BadArg, None))
       ids heap dest"

definition aggregate ::
  "'t tree_api \<Rightarrow> ('t \<Rightarrow> Timestamp \<Rightarrow> Timestamp \<Rightarrow> 'it) \<Rightarrow> table \<Rightarrow> ParamId list
     \<Rightarrow> Timestamp \<Rightarrow> Timestamp \<Rightarrow> 't heap \<Rightarrow> 'it list \<Rightarrow> Status \<times> 't heap \<times> 'it list" where
  "aggregate api tree_aggregate columns ids tbegin tend heap dest =
     iterate api columns (\<lambda>elist. (Ok, tree_aggregate elist tbegin tend)) ids heap dest"

definition group_aggregate ::
  "'t tree_api \<Rightarrow> ('t \<Rightarrow> Timestamp \<Rightarrow> Timestamp \<Rightarrow> Timestamp \<Rightarrow> 'it) \<Rightarrow> table \<Rightarrow> ParamId list
     \<Rightarrow> Timestamp \<Rightarrow> Timestamp \<Rightarrow> Timestamp \<Rightarrow> 't heap \<Rightarrow> 'it list
     \<Rightarrow> Status \<times> 't heap \<times> 'it list" where
  "group_aggregate api tree_group_aggregate columns ids tbegin tend step heap dest =
     iterate api columns (\<lambda>elist. (Ok, tree_group_aggregate elist tbegin tend step))
       ids heap dest"

definition group_aggfilter ::
  "'t tree_api \<Rightarrow> ('t \<Rightarrow> ParamId) \<Rightarrow> ('af \<Rightarrow> int)
     \<Rightarrow> ('t \<Rightarrow> Timestamp \<Rightarrow> Timestamp \<Rightarrow> Timestamp \<Rightarrow> 'af \<Rightarrow> 'it)
     \<Rightarrow> ('t \<Rightarrow> Timestamp \<Rightarrow> Timestamp \<Rightarrow> Timestamp \<Rightarrow> 'it)
     \<Rightarrow> table \<Rightarrow> ParamId list \<Rightarrow> Timestamp \<Rightarrow> Timestamp \<Rightarrow> Timestamp \<Rightarrow> (ParamId \<rightharpoonup> 'af)
     \<Rightarrow> 't heap \<Rightarrow> 'it option list \<Rightarrow> Status \<times> 't heap \<times> 'it option list" where
  "group_aggfilter api get_id bitmap tree_group_aggregate_filter tree_group_aggregate
       columns ids tbegin tend step filters heap dest =
     iterate api columns
       (\<lambda>elist.
          case filters (get_id elist) of
            Some flt \<Rightarrow>
              if bitmap flt \<noteq> 0
              then (Ok, Some (tree_group_aggregate_filter elist tbegin tend step flt))
              else (Ok, Some (tree_group_aggregate elist tbegin tend step))
          | None \<Rightarrow> (BadArg, None))
       ids heap dest"

section \<open>A reference tree\<close>

text \<open>
  Modelled from the spec: the class \<open>NBTreeExtentsList\<close> (\<open>stdb/storage/nbtree.h\<close>) is
  missing from the sources. Section 4.2 of the specification gives its contract, which
  the definitions below follow: a tree holds the samples of one series in append order;
  an append with a timestamp below the current maximum is \<open>FAIL_BAD_VALUE\<close>; an append
  that seals a block is \<open>OK_FLUSH_NEEDED\<close> and changes the roots; during recovery an
  equal or lower timestamp is permitted when \<open>allow_duplicates\<close> is set. The block layout
  is not specified: a leaf is taken to hold \<open>cap\<close> samples, and the root list after
  sealing the \<open>n\<close>-th leaf is \<open>[n]\<close>.
\<close>

record nbtree =
  nb_id :: ParamId
  nb_initialized :: bool
  nb_points :: "(Timestamp \<times> double) list"
  nb_events :: "(Timestamp \<times> u8 list) list"
  nb_roots :: "LogicAddr list"

definition nb_append :: "nat \<Rightarrow> nbtree \<Rightarrow> Timestamp \<Rightarrow> double \<Rightarrow> NBTreeAppendResult \<times> nbtree" where
  "nb_append cap t ts v =
     (if nb_points t \<noteq> [] \<and> ts < fst (last (nb_points t)) then (FAIL_BAD_VALUE, t)
      else let pts = nb_points t @ [(ts, v)] in
           if cap dvd length pts
           then (OK_FLUSH_NEEDED, t\<lparr>nb_points := pts, nb_roots := [of_nat (length pts div cap)]\<rparr>)
           else (OK, t\<lparr>nb_points := pts\<rparr>))"

definition nb_append_event ::
  "nat \<Rightarrow> nbtree \<Rightarrow> Timestamp \<Rightarrow> u8 list \<Rightarrow> u32 \<Rightarrow> NBTreeAppendResult \<times> nbtree" where
  "nb_append_event cap t ts bytes sz =
     (if nb_events t \<noteq> [] \<and> ts < fst (last (nb_events t)) then (FAIL_BAD_VALUE, t)
      else let evs = nb_events t @ [(ts, take (unat sz) bytes)] in
           if cap dvd length evs
           then (OK_FLUSH_NEEDED, t\<lparr>nb_events := evs, nb_roots := [of_nat (length evs div cap)]\<rparr>)
           else (OK, t\<lparr>nb_events := evs\<rparr>))"

definition nb_append_recovery ::
  "nat \<Rightarrow> nbtree \<Rightarrow> Timestamp \<Rightarrow> double \<Rightarrow> bool \<Rightarrow> NBTreeAppendResult \<times> nbtree" where
  "nb_append_recovery cap t ts v allow_duplicates =
     (if allow_duplicates \<and> nb_points t \<noteq> [] \<and> ts \<le> fst (last (nb_points t)) then (OK, t)
      else nb_append cap t ts v)"

definition nb_api :: "nat \<Rightarrow> nbtree tree_api" where
  "nb_api cap =
     \<lparr>append_float = nb_append cap,
      append_event = nb_append_event cap,
      append_recovery = nb_append_recovery cap,
      get_roots = nb_roots,
      is_initialized = nb_initialized,
      force_init = (\<lambda>t. t\<lparr>nb_initialized := True\<rparr>)\<rparr>"

text \<open>
  Modelled from the spec: \<open>NBTreeExtentsList::search\<close> is missing from the sources.
  Section 4.2: ordered by timestamp, ascending when \<open>begin < end\<close>, descending when
  \<open>begin > end\<close>, inclusive of \<open>begin\<close>, exclusive of \<open>end\<close>. The operator it returns is
  modelled by the list of samples it yields.
\<close>

definition nb_search :: "nbtree \<Rightarrow> Timestamp \<Rightarrow> Timestamp \<Rightarrow> (Timestamp \<times> double) list" where
  "nb_search t tbegin tend =
     (if tbegin < tend then filter (\<lambda>p. tbegin \<le> fst p \<and> fst p < tend) (nb_points t)
      else if tend < tbegin
      then rev (filter (\<lambda>p. tend < fst p \<and> fst p \<le> tbegin) (nb_points t))
      else [])"

text \<open>
  Concrete inputs for evaluating the functions: an instance of the constants (the theorems
  hold for every instance), an empty tree for series 1024, a table with that one column,
  and three samples for it: a float, an event and one of another payload type.
\<close>

definition K0 :: basic_h where
  "K0 = \<lparr>PAYLOAD_FLOAT = 1, PAYLOAD_EVENT = 2, sizeof_Sample = 32\<rparr>"

definition tree0 :: nbtree where
  "tree0 = \<lparr>nb_id = 1024, nb_initialized = False, nb_points = [], nb_events = [], nb_roots = []\<rparr>"

definition heap0 :: "nbtree heap" where
  "heap0 = (\<lambda>_. tree0)"

definition columns0 :: table where
  "columns0 = [1024 \<mapsto> 0]"

definition float_sample :: Sample where
  "float_sample =
     \<lparr>paramid = 1024, timestamp = 100,
      payload = \<lparr>float64 = 7, psize = 32, ptype = 1, pdata = []\<rparr>\<rparr>"

definition event_sample :: Sample where
  "event_sample =
     \<lparr>paramid = 1024, timestamp = 100,
      payload = \<lparr>float64 = 0, psize = 34, ptype = 2, pdata = [104, 105]\<rparr>\<rparr>"

definition other_sample :: Sample where
  "other_sample =
     \<lparr>paramid = 1024, timestamp = 100,
      payload = \<lparr>float64 = 7, psize = 32, ptype = 4, pdata = []\<rparr>\<rparr>"

section \<open>The timestamp of an OpenTSDB put (stdb/protocol/protocolparser.cc)\<close>

text \<open>
  \<open>strtoull\<close> of the C library in base 10: optional white space, an optional sign, then
  digits up to the first other character; no digits give 0, a value above \<open>ULLONG_MAX\<close>
  gives \<open>ULLONG_MAX\<close>, and a minus sign negates the value in 64 bits.
\<close>

definition isspace :: "char \<Rightarrow> bool" where
  "isspace c = (of_char c = (32::nat) \<or> (9 \<le> (of_char c :: nat) \<and> (of_char c :: nat) \<le> 13))"

definition isdigit :: "char \<Rightarrow> bool" where
  "isdigit c = (48 \<le> (of_char c :: nat) \<and> (of_char c :: nat) \<le> 57)"

definition digit_value :: "char \<Rightarrow> nat" where
  "digit_value c = of_char c - 48"

fun strtoull_digits :: "nat \<Rightarrow> string \<Rightarrow> nat" where
  "strtoull_digits acc [] = acc"
| "strtoull_digits acc (c # cs) =
     (if isdigit c then strtoull_digits (acc * 10 + digit_value c) cs else acc)"

definition ULLONG_MAX :: nat where
  "ULLONG_MAX = 2 ^ 64 - 1"

definition strtoull :: "string \<Rightarrow> u64" where
  "strtoull s =
     (let s1 = dropWhile isspace s;
          neg = (s1 \<noteq> [] \<and> hd s1 = CHR ''-'');
          s2 = (if s1 \<noteq> [] \<and> (hd s1 = CHR ''-'' \<or> hd s1 = CHR ''+'') then tl s1 else s1);
          v = strtoull_digits 0 s2
      in if ULLONG_MAX < v then of_nat ULLONG_MAX
         else if neg then - of_nat v else of_nat v)"

text \<open>
  \<open>from_unix_time\<close>: the nanoseconds between the epoch and \<open>ts\<close> seconds after it, cast
  to the unsigned 64-bit \<open>Timestamp\<close>.
\<close>

definition from_unix_time :: "u64 \<Rightarrow> Timestamp" where
  "from_unix_time ts = ts * 1000000000"

text \<open>
  The block of \<open>OpenTSDBProtocolParser::worker\<close> that reads the timestamp of a put
  command. \<open>pbuf\<close> is the line from the timestamp on and \<open>eix\<close> the length of the
  timestamp token: the code writes a terminator at \<open>pbuf[eix]\<close> for \<open>strtoull\<close> and
  restores the space before the ISO parser sees \<open>pbuf\<close>. \<open>Utility::parse_timestamp\<close> is
  not among the sources and is a parameter; it returns the timestamp it stores into the
  sample on \<open>Ok\<close>. \<open>Inl\<close> is the \<open>ProtocolParserError\<close> thrown, \<open>Inr\<close> the value of
  \<open>sample.timestamp\<close> afterwards.
\<close>

definition put_timestamp ::
  "(string \<Rightarrow> Timestamp option) \<Rightarrow> string \<Rightarrow> nat \<Rightarrow> string + Timestamp" where
  "put_timestamp parse_timestamp pbuf eix =
     (let result = strtoull (take eix pbuf);
          err = (result = 0);
          result1 = (if result < 0xFFFFFFFF then from_unix_time result else result);
          (ts, err1) =
            (if err then
               (case parse_timestamp pbuf of
                  Some parsed \<Rightarrow> (parsed, False)
                | None \<Rightarrow> (result1, err))
             else (result1, err))
      in if err1 then Inl ''put: invalid timestamp format'' else Inr ts)"

text \<open>The value of a string of decimal digits.\<close>

definition decimal :: "string \<Rightarrow> nat" where
  "decimal ds = foldl (\<lambda>a c. a * 10 + digit_value c) 0 ds"

section \<open>Scoped lock guards (stdb/common/rwlock.h)\<close>

text \<open>
  The member functions of \<open>RWLock\<close> are declared in the header and defined elsewhere; they
  are a record of functions on the state \<open>'l\<close> of the lock. \<open>LockGuard\<close> takes the member
  function to call on entry as a template argument: here a selector of that record.
\<close>

record 'l RWLock =
  rdlock :: "'l \<Rightarrow> 'l"
  wrlock :: "'l \<Rightarrow> 'l"
  unlock :: "'l \<Rightarrow> 'l"

definition LockGuard :: "('l RWLock \<Rightarrow> 'l \<Rightarrow> 'l) \<Rightarrow> 'l RWLock \<Rightarrow> 'l \<Rightarrow> 'l" where
  "LockGuard on_enter rw lock = on_enter rw lock"

definition LockGuard_destructor :: "'l RWLock \<Rightarrow> 'l \<Rightarrow> 'l" where
  "LockGuard_destructor rw lock = unlock rw lock"

definition UniqueLock :: "'l RWLock \<Rightarrow> 'l \<Rightarrow> 'l" where
  "UniqueLock = LockGuard wrlock"

definition SharedLock :: "'l RWLock \<Rightarrow> 'l \<Rightarrow> 'l" where
  "SharedLock = LockGuard wrlock"

definition ReadLockGuard :: "'l RWLock \<Rightarrow> 'l \<Rightarrow> 'l" where
  "ReadLockGuard = LockGuard rdlock"

definition WriteLockGuard :: "'l RWLock \<Rightarrow> 'l \<Rightarrow> 'l" where
  "WriteLockGuard = LockGuard wrlock"

text \<open>A lock that records the calls made on it.\<close>

datatype lock_call = Rdlock | Wrlock | Unlock

definition recording_lock :: "lock_call list RWLock" where
  "recording_lock =
     \<lparr>rdlock = (\<lambda>l. l @ [Rdlock]), wrlock = (\<lambda>l. l @ [Wrlock]), unlock = (\<lambda>l. l @ [Unlock])\<rparr>"

section \<open>The cursor of a query\<close>

text \<open>
  \<open>CursorMock\<close> (storage\_test.cc), the cursor the tests hand to a query. Each of its
  methods ends the process with "Cursor invariant broken" when the cursor is already
  done: the result \<open>None\<close>. \<open>samples.push_back(val)\<close> copies the fixed-size struct, so
  the trailing bytes \<open>data\<close> of the payload are not kept. The field \<open>tuples\<close>, which
  unpacks tuple payloads, is left out.
\<close>

record CursorMock =
  is_done :: bool
  samples :: "Sample list"
  error :: Status
  error_msg :: string

definition CursorMock_init :: CursorMock where
  "CursorMock_init = \<lparr>is_done = False, samples = [], error = Ok, error_msg = []\<rparr>"

definition mock_put :: "CursorMock \<Rightarrow> Sample \<Rightarrow> (bool \<times> CursorMock) option" where
  "mock_put m val =
     (if is_done m then None
      else Some (True, m\<lparr>samples := samples m @ [val\<lparr>payload := (payload val)\<lparr>pdata := []\<rparr>\<rparr>]\<rparr>))"

definition mock_complete :: "CursorMock \<Rightarrow> CursorMock option" where
  "mock_complete m = (if is_done m then None else Some (m\<lparr>is_done := True\<rparr>))"

definition mock_set_error :: "CursorMock \<Rightarrow> Status \<Rightarrow> CursorMock option" where
  "mock_set_error m error_code =
     (if is_done m then None else Some (m\<lparr>is_done := True, error := error_code\<rparr>))"

definition mock_set_error_msg :: "CursorMock \<Rightarrow> Status \<Rightarrow> string \<Rightarrow> CursorMock option" where
  "mock_set_error_msg m error_code error_message =
     (if is_done m then None
      else Some (m\<lparr>is_done := True, error := error_code, error_msg := error_message\<rparr>))"

text \<open>The interface \<open>InternalCursor\<close>, over the state \<open>'c\<close> of a cursor.\<close>

record 'c InternalCursor =
  put :: "'c \<Rightarrow> Sample \<Rightarrow> (bool \<times> 'c) option"
  complete :: "'c \<Rightarrow> 'c option"
  set_error :: "'c \<Rightarrow> Status \<Rightarrow> 'c option"

definition CursorMock_cursor :: "CursorMock InternalCursor" where
  "CursorMock_cursor = \<lparr>put = mock_put, complete = mock_complete, set_error = mock_set_error\<rparr>"

datatype cursor_call = Put Sample | Complete | SetError Status

text \<open>
  Modelled from the spec: the code that runs a query and drives the cursor (the query
  method of the storage session and the implementation of \<open>ScanQueryProcessor\<close>) is
  missing from the sources. Sections 4.6, 5 and 7: the final node of the operator
  pipeline feeds the cursor; \<open>put\<close> returning false stops further pushes; operators
  bubble an error to the cursor through \<open>set_error\<close>; between operator batches the query
  checks its cancel flag and on cancel the cursor receives \<open>set_error(Cancelled)\<close>; a
  query that is told to stop, or runs to the end of its data, completes the cursor (one
  of the two terminating calls is made in every query). What the pipeline delivers
  is a list of steps; the result is the list of calls made on the cursor and the cursor
  afterwards, or \<open>None\<close> when the cursor ended the process.
\<close>

datatype query_step = Emit Sample | Fail Status | Batch_end bool

fun run_query ::
  "'c InternalCursor \<Rightarrow> query_step list \<Rightarrow> 'c \<Rightarrow> (cursor_call list \<times> 'c) option" where
  "run_query cur [] c = map_option (\<lambda>c1. ([Complete], c1)) (complete cur c)"
| "run_query cur (Emit s # rest) c =
     (case put cur c s of
        None \<Rightarrow> None
      | Some (continue, c1) \<Rightarrow>
          if continue
          then map_option (\<lambda>(calls, c2). (Put s # calls, c2)) (run_query cur rest c1)
          else map_option (\<lambda>c2. ([Put s, Complete], c2)) (complete cur c1))"
| "run_query cur (Fail st # rest) c = map_option (\<lambda>c1. ([SetError st], c1)) (set_error cur c st)"
| "run_query cur (Batch_end cancelled # rest) c =
     (if cancelled then map_option (\<lambda>c1. ([SetError Cancelled], c1)) (set_error cur c Cancelled)
      else run_query cur rest c)"

text \<open>A call that terminates the cursor.\<close>

fun terminating :: "cursor_call \<Rightarrow> bool" where
  "terminating (Put _) = False"
| "terminating Complete = True"
| "terminating (SetError _) = True"

text \<open>
  The body of \<open>StandaloneDatabase::recovery_write\<close> (standalone\_database.cc) is empty:
  nothing is appended and no status is returned.
\<close>

definition StandaloneDatabase_recovery_write :: "Sample \<Rightarrow> bool \<Rightarrow> NBTreeAppendResult option" where
  "StandaloneDatabase_recovery_write sample allow_duplicates = None"

text \<open>
  What a read operation leaves behind when it stops at an id that has no column: the
  result \<open>whole\<close> on the full id list is \<open>NotFound\<close> together with the store of trees and
  the destination vector of the successful run \<open>prefix\<close> on the \<open>n\<close> ids before it, and
  that vector is the old \<open>dest\<close> followed by \<open>n\<close> operators.
\<close>

definition not_found_after ::
  "nat \<Rightarrow> 'it list \<Rightarrow> Status \<times> 'h \<times> 'it list \<Rightarrow> Status \<times> 'h \<times> 'it list \<Rightarrow> bool" where
  "not_found_after n dest whole prefix \<longleftrightarrow>
     whole = (NotFound, snd prefix) \<and> fst prefix = Ok \<and>
     length (snd (snd prefix)) = length dest + n \<and>
     take (length dest) (snd (snd prefix)) = dest"

text \<open>
  What \<open>filter\<close> and \<open>group_aggfilter\<close> leave behind when they stop at an id whose tree
  (at address \<open>r\<close>) has no filter: the run \<open>prefix\<close> on the \<open>n\<close> ids before it succeeded
  and appended \<open>n\<close> operators to \<open>dest\<close>; the result \<open>whole\<close> is \<open>BadArg\<close> with that
  destination vector, and the store of trees of the prefix in which the tree at \<open>r\<close> has
  been initialized if it was not.
\<close>

definition bad_arg_after ::
  "nat \<Rightarrow> 'it list \<Rightarrow> 't tree_api \<Rightarrow> nat \<Rightarrow> Status \<times> 't heap \<times> 'it list
     \<Rightarrow> Status \<times> 't heap \<times> 'it list \<Rightarrow> bool" where
  "bad_arg_after n dest api r whole prefix \<longleftrightarrow>
     fst prefix = Ok \<and>
     length (snd (snd prefix)) = length dest + n \<and>
     take (length dest) (snd (snd prefix)) = dest \<and>
     whole =
       (BadArg,
        (let h = fst (snd prefix)
         in if \<not> is_initialized api (h r) then h(r := force_init api (h r)) else h),
        snd (snd prefix))"

text \<open>A table with the columns 1024 and 2048, and a store with a tree for each.\<close>

definition columns2 :: table where
  "columns2 = [1024 \<mapsto> 0, 2048 \<mapsto> 1]"

definition heap2 :: "nbtree heap" where
  "heap2 = heap0(1 := tree0\<lparr>nb_id := 2048\<rparr>)"

text \<open>A store whose trees hold three points of series 1024.\<close>

definition heap1 :: "nbtree heap" where
  "heap1 = (\<lambda>_. tree0\<lparr>nb_points := [(100, 1), (150, 2), (200, 3)]\<rparr>)"

section \<open>Writing through the column store\<close>

lemmas example_defs = K0_def nb_api_def columns0_def heap0_def tree0_def
  float_sample_def event_sample_def other_sample_def

text \<open>
  Claim C2, as stated, at a sample whose payload type is neither \<open>PAYLOAD_FLOAT\<close> nor
  \<open>PAYLOAD_EVENT\<close>: the sample's id has a column, \<open>ColumnStore::write\<close> returns \<open>OK\<close> and
  the store of trees is unchanged, although an append would have changed the tree. So
  the sample is not appended.
\<close>

theorem ColumnStore_write_other_payload:
  "columns0 (paramid other_sample) = Some 0 \<and>
   ColumnStore_write K0 (nb_api 4) columns0 other_sample heap0 [] None = (OK, heap0, [], None) \<and>
   snd (nb_append 4 (heap0 0) (timestamp other_sample) (float64 (payload other_sample))) \<noteq> heap0 0"
  by (simp add: ColumnStore_write_def example_defs nb_append_def)

text \<open>
  Claim C2, amended: for every sample of payload type \<open>PAYLOAD_FLOAT\<close> or
  \<open>PAYLOAD_EVENT\<close> whose id has a column, \<open>ColumnStore::write\<close> appends the sample to that
  column's tree (the float value, or the event bytes with the size
  \<open>payload.size - sizeof(Sample)\<close>), returns the status of the append, and sets
  \<open>rescue_points\<close> to the roots of the tree after the append exactly when that status is
  \<open>OK_FLUSH_NEEDED\<close>, leaving it unchanged otherwise; no other tree changes. When the id has
  no column, the result is \<open>FAIL_BAD_ID\<close> and nothing changes.
\<close>

theorem ColumnStore_write_appends:
  "(columns (paramid sample) = None \<longrightarrow>
      ColumnStore_write K api columns sample heap rescue_points cache_or_null
        = (FAIL_BAD_ID, heap, rescue_points, cache_or_null)) \<and>
   (\<forall>tree. columns (paramid sample) = Some tree \<longrightarrow>
      ptype (payload sample) = PAYLOAD_FLOAT K \<longrightarrow>
      (let r = append_float api (heap tree) (timestamp sample) (float64 (payload sample));
           w = ColumnStore_write K api columns sample heap rescue_points cache_or_null
       in fst w = fst r \<and> fst (snd w) = heap(tree := snd r) \<and>
          fst (snd (snd w)) =
            (if fst r = OK_FLUSH_NEEDED then get_roots api (snd r) else rescue_points))) \<and>
   (\<forall>tree. columns (paramid sample) = Some tree \<longrightarrow>
      ptype (payload sample) \<noteq> PAYLOAD_FLOAT K \<longrightarrow>
      ptype (payload sample) = PAYLOAD_EVENT K \<longrightarrow>
      (let r = append_event api (heap tree) (timestamp sample) (pdata (payload sample))
                 (ucast (psize (payload sample)) - sizeof_Sample K);
           w = ColumnStore_write K api columns sample heap rescue_points cache_or_null
       in fst w = fst r \<and> fst (snd w) = heap(tree := snd r) \<and>
          fst (snd (snd w)) =
            (if fst r = OK_FLUSH_NEEDED then get_roots api (snd r) else rescue_points)))"
  by (auto simp: ColumnStore_write_def Let_def split: prod.splits option.splits)

theorem ColumnStore_write_appends_witness:
  "columns0 (paramid float_sample) = Some 0 \<and>
   ptype (payload float_sample) = PAYLOAD_FLOAT K0 \<and>
   fst (ColumnStore_write K0 (nb_api 1) columns0 float_sample heap0 [] None) = OK_FLUSH_NEEDED \<and>
   nb_points (fst (snd (ColumnStore_write K0 (nb_api 1) columns0 float_sample heap0 [] None)) 0)
     = [(100, 7)] \<and>
   fst (snd (snd (ColumnStore_write K0 (nb_api 1) columns0 float_sample heap0 [] None))) = [1] \<and>
   columns0 (paramid event_sample) = Some 0 \<and>
   ptype (payload event_sample) \<noteq> PAYLOAD_FLOAT K0 \<and>
   ptype (payload event_sample) = PAYLOAD_EVENT K0 \<and>
   fst (ColumnStore_write K0 (nb_api 4) columns0 event_sample heap0 [5] None) = OK \<and>
   nb_events (fst (snd (ColumnStore_write K0 (nb_api 4) columns0 event_sample heap0 [5] None)) 0)
     = [(100, [104, 105])] \<and>
   fst (snd (snd (ColumnStore_write K0 (nb_api 4) columns0 event_sample heap0 [5] None))) = [5] \<and>
   Map.empty (paramid float_sample) = None \<and>
   ColumnStore_write K0 (nb_api 4) Map.empty float_sample heap0 [5] None
     = (FAIL_BAD_ID, heap0, [5], None)"
  using ColumnStore_write_appends [of columns0 float_sample K0 "nb_api 1" heap0 "[]" None]
    ColumnStore_write_appends [of columns0 event_sample K0 "nb_api 4" heap0 "[5]" None]
    ColumnStore_write_appends [of Map.empty float_sample K0 "nb_api 4" heap0 "[5]" None]
  by (simp add: example_defs nb_append_def nb_append_event_def Let_def)

text \<open>
  Claim C10: for every sample whose payload type is neither \<open>PAYLOAD_FLOAT\<close> nor
  \<open>PAYLOAD_EVENT\<close>, \<open>CStoreSession::write\<close> returns \<open>FAIL_BAD_VALUE\<close> and leaves every
  tree, the session cache and the \<open>rescue_points\<close> output as they were.
\<close>

theorem CStoreSession_write_bad_payload:
  "ptype (payload sample) \<noteq> PAYLOAD_FLOAT K \<Longrightarrow> ptype (payload sample) \<noteq> PAYLOAD_EVENT K \<Longrightarrow>
   CStoreSession_write K api columns cache sample heap rescue_points
     = (FAIL_BAD_VALUE, heap, rescue_points, cache)"
  by (simp add: CStoreSession_write_def)

theorem CStoreSession_write_bad_payload_witness:
  "ptype (payload other_sample) \<noteq> PAYLOAD_FLOAT K0 \<and>
   ptype (payload other_sample) \<noteq> PAYLOAD_EVENT K0 \<and>
   CStoreSession_write K0 (nb_api 4) columns0 columns0 other_sample heap0 [5]
     = (FAIL_BAD_VALUE, heap0, [5], columns0)"
proof -
  have a: "ptype (payload other_sample) \<noteq> PAYLOAD_FLOAT K0"
    by (simp add: other_sample_def K0_def)
  have b: "ptype (payload other_sample) \<noteq> PAYLOAD_EVENT K0"
    by (simp add: other_sample_def K0_def)
  show ?thesis
    using a b CStoreSession_write_bad_payload [OF a b, of "nb_api 4" columns0 columns0 heap0 "[5]"]
    by simp
qed

lemma recovery_write_reads_float64_only:
  "ColumnStore_recovery_write api columns
       (sample\<lparr>payload := (payload sample)\<lparr>ptype := ty, psize := sz, pdata := bytes\<rparr>\<rparr>)
       allow_duplicates heap
     = ColumnStore_recovery_write api columns sample allow_duplicates heap"
  by (cases "columns (paramid sample)") (simp_all add: ColumnStore_recovery_write_def)

text \<open>
  Claim C3, where the code departs from it: \<open>ColumnStore::recovery_write\<close> never reads
  the payload type, size or bytes of the sample; evaluated at an event sample replayed
  with \<open>allow_duplicates\<close> set, it calls the numeric append with \<open>payload.float64\<close>, so
  the tree gains a numeric point and no event, where \<open>ColumnStore::write\<close> on the same
  sample appends the event bytes; and \<open>StandaloneDatabase::recovery_write\<close> returns no
  status.
\<close>

theorem recovery_write_event_sample:
  "ColumnStore_recovery_write api columns
       (sample\<lparr>payload := (payload sample)\<lparr>ptype := ty, psize := sz, pdata := bytes\<rparr>\<rparr>)
       allow_duplicates heap
     = ColumnStore_recovery_write api columns sample allow_duplicates heap \<and>
   ptype (payload event_sample) = PAYLOAD_EVENT K0 \<and>
   fst (ColumnStore_recovery_write (nb_api 4) columns0 event_sample True heap0) = OK \<and>
   nb_points (snd (ColumnStore_recovery_write (nb_api 4) columns0 event_sample True heap0) 0)
     = [(100, 0)] \<and>
   nb_events (snd (ColumnStore_recovery_write (nb_api 4) columns0 event_sample True heap0) 0)
     = [] \<and>
   nb_points (fst (snd (ColumnStore_write K0 (nb_api 4) columns0 event_sample heap0 [] None)) 0)
     = [] \<and>
   nb_events (fst (snd (ColumnStore_write K0 (nb_api 4) columns0 event_sample heap0 [] None)) 0)
     = [(100, [104, 105])] \<and>
   StandaloneDatabase_recovery_write event_sample True = None"
proof -
  have "ptype (payload event_sample) = PAYLOAD_EVENT K0 \<and>
   fst (ColumnStore_recovery_write (nb_api 4) columns0 event_sample True heap0) = OK \<and>
   nb_points (snd (ColumnStore_recovery_write (nb_api 4) columns0 event_sample True heap0) 0)
     = [(100, 0)] \<and>
   nb_events (snd (ColumnStore_recovery_write (nb_api 4) columns0 event_sample True heap0) 0)
     = [] \<and>
   nb_points (fst (snd (ColumnStore_write K0 (nb_api 4) columns0 event_sample heap0 [] None)) 0)
     = [] \<and>
   nb_events (fst (snd (ColumnStore_write K0 (nb_api 4) columns0 event_sample heap0 [] None)) 0)
     = [(100, [104, 105])] \<and>
   StandaloneDatabase_recovery_write event_sample True = None"
    by (simp add: ColumnStore_recovery_write_def ColumnStore_write_def example_defs
        nb_append_recovery_def nb_append_def nb_append_event_def
        StandaloneDatabase_recovery_write_def)
  then show ?thesis
    using recovery_write_reads_float64_only [where api = api and columns = columns
        and sample = sample and ty = ty and sz = sz and bytes = bytes
        and allow_duplicates = allow_duplicates and heap = heap]
    by (simp only: simp_thms)
qed

section \<open>Lock guards\<close>

text \<open>
  Claim C8: \<open>SharedLock\<close> and \<open>UniqueLock\<close> are the same instantiation of \<open>LockGuard\<close>;
  constructing either one calls \<open>wrlock\<close> on the lock, and \<open>SharedLock\<close> never calls
  \<open>rdlock\<close> (on the recording lock its only call is \<open>Wrlock\<close>, where \<open>ReadLockGuard\<close>
  makes the call \<open>Rdlock\<close>).
\<close>

theorem SharedLock_is_UniqueLock:
  "(SharedLock :: 'l RWLock \<Rightarrow> 'l \<Rightarrow> 'l) = UniqueLock \<and>
   SharedLock rw lock = wrlock rw lock \<and>
   UniqueLock rw lock = wrlock rw lock \<and>
   SharedLock recording_lock [] = [Wrlock] \<and>
   ReadLockGuard recording_lock [] = [Rdlock]"
  by (simp add: SharedLock_def UniqueLock_def ReadLockGuard_def LockGuard_def recording_lock_def)

section \<open>Reading through the column store\<close>

lemma iterate_append:
  "iterate api columns fn (xs @ ys) heap dest =
     (let r = iterate api columns fn xs heap dest
      in if fst r = Ok then iterate api columns fn ys (fst (snd r)) (snd (snd r)) else r)"
  by (induction xs arbitrary: heap dest) (auto simp: Let_def split: option.splits prod.splits)

lemma iterate_ok:
  assumes "Inv heap"
    and "\<And>h r. Inv h \<Longrightarrow> Inv (h(r := force_init api (h r)))"
    and "\<And>h j r. Inv h \<Longrightarrow> j \<in> set xs \<Longrightarrow> columns j = Some r \<Longrightarrow> fst (fn (h r)) = Ok"
    and "\<forall>j\<in>set xs. columns j \<noteq> None"
  shows "fst (iterate api columns fn xs heap dest) = Ok \<and>
         length (snd (snd (iterate api columns fn xs heap dest))) = length dest + length xs \<and>
         take (length dest) (snd (snd (iterate api columns fn xs heap dest))) = dest"
  using assms
proof (induction xs arbitrary: heap dest)
  case Nil
  then show ?case by simp
next
  case (Cons j xs)
  from Cons.prems(4) obtain r where r: "columns j = Some r" by auto
  define h1 where "h1 = (if \<not> is_initialized api (heap r) then heap(r := force_init api (heap r)) else heap)"
  have inv1: "Inv h1"
  proof (cases "is_initialized api (heap r)")
    case True
    then show ?thesis using Cons.prems(1) by (simp add: h1_def)
  next
    case False
    then have "h1 = heap(r := force_init api (heap r))" by (simp add: h1_def)
    moreover have "Inv (heap(r := force_init api (heap r)))"
      by (rule Cons.prems(2) [OF Cons.prems(1)])
    ultimately show ?thesis by (simp only:)
  qed
  have ok1: "fst (fn (h1 r)) = Ok" using Cons.prems(3) [OF inv1 _ r] by simp
  obtain iter where it: "fn (h1 r) = (Ok, iter)" using ok1 by (cases "fn (h1 r)") auto
  have step: "iterate api columns fn (j # xs) heap dest = iterate api columns fn xs h1 (dest @ [iter])"
    using r it by (simp add: h1_def Let_def)
  have IH: "fst (iterate api columns fn xs h1 (dest @ [iter])) = Ok \<and>
         length (snd (snd (iterate api columns fn xs h1 (dest @ [iter])))) = length (dest @ [iter]) + length xs \<and>
         take (length (dest @ [iter])) (snd (snd (iterate api columns fn xs h1 (dest @ [iter])))) = dest @ [iter]"
  proof (rule Cons.IH [OF inv1])
    show "\<And>h r. Inv h \<Longrightarrow> Inv (h(r := force_init api (h r)))"
      by (rule Cons.prems(2))
    show "\<And>h ja r. Inv h \<Longrightarrow> ja \<in> set xs \<Longrightarrow> columns ja = Some r \<Longrightarrow> fst (fn (h r)) = Ok"
      by (rule Cons.prems(3)) simp_all
    show "\<forall>j\<in>set xs. columns j \<noteq> None"
      using Cons.prems(4) by simp
  qed
  have "take (length dest) (snd (snd (iterate api columns fn xs h1 (dest @ [iter])))) = dest"
  proof -
    have "take (length dest) (take (length (dest @ [iter])) (snd (snd (iterate api columns fn xs h1 (dest @ [iter])))))
        = take (length dest) (dest @ [iter])" using IH by simp
    then show ?thesis by (simp add: min_def)
  qed
  then show ?case using IH step by simp
qed

lemma iterate_not_found:
  assumes "Inv heap"
    and "\<And>h r. Inv h \<Longrightarrow> Inv (h(r := force_init api (h r)))"
    and "\<And>h j r. Inv h \<Longrightarrow> j \<in> set pre \<Longrightarrow> columns j = Some r \<Longrightarrow> fst (fn (h r)) = Ok"
    and "\<forall>j\<in>set pre. columns j \<noteq> None"
    and "columns i = None"
  shows "not_found_after (length pre) dest (iterate api columns fn (pre @ i # post) heap dest)
           (iterate api columns fn pre heap dest)"
proof -
  have ok: "fst (iterate api columns fn pre heap dest) = Ok \<and>
         length (snd (snd (iterate api columns fn pre heap dest))) = length dest + length pre \<and>
         take (length dest) (snd (snd (iterate api columns fn pre heap dest))) = dest"
    using assms(1-4) by (rule iterate_ok)
  have "iterate api columns fn (pre @ i # post) heap dest = (NotFound, snd (iterate api columns fn pre heap dest))"
    using ok assms(5) by (simp add: iterate_append Let_def)
  then show ?thesis using ok by (simp add: not_found_after_def)
qed


lemma iterate_not_found_total:
  assumes "\<And>t. fst (fn t) = Ok" and "\<forall>j\<in>set pre. columns j \<noteq> None" and "columns i = None"
  shows "not_found_after (length pre) dest (iterate api columns fn (pre @ i # post) heap dest)
           (iterate api columns fn pre heap dest)"
  by (rule iterate_not_found [where Inv = "\<lambda>_. True"]) (simp_all add: assms)

lemma iterate_not_found_filtered:
  assumes gid: "\<forall>t. get_id (force_init api t) = get_id t"
    and flt: "\<forall>j\<in>set pre. \<forall>r. columns j = Some r \<longrightarrow> filters (get_id (heap r)) \<noteq> None"
    and fn: "\<And>t. filters (get_id t) \<noteq> None \<Longrightarrow> fst (fn t) = Ok"
    and cols: "\<forall>j\<in>set pre. columns j \<noteq> None" and miss: "columns i = None"
  shows "not_found_after (length pre) dest (iterate api columns fn (pre @ i # post) heap dest)
           (iterate api columns fn pre heap dest)"
proof (rule iterate_not_found [where Inv = "\<lambda>h. \<forall>r. get_id (h r) = get_id (heap r)"])
  show "\<forall>r. get_id (heap r) = get_id (heap r)" by simp
  show "\<And>h r. \<forall>r. get_id (h r) = get_id (heap r) \<Longrightarrow>
          \<forall>ra. get_id ((h(r := force_init api (h r))) ra) = get_id (heap ra)"
    using gid by simp
  show "\<And>h j r. \<forall>r. get_id (h r) = get_id (heap r) \<Longrightarrow> j \<in> set pre \<Longrightarrow> columns j = Some r
          \<Longrightarrow> fst (fn (h r)) = Ok"
    using flt fn by simp
  show "\<forall>j\<in>set pre. columns j \<noteq> None" by (rule cols)
  show "columns i = None" by (rule miss)
qed

lemma iterate_inv:
  assumes "Inv heap"
    and "\<And>h r. Inv h \<Longrightarrow> Inv (h(r := force_init api (h r)))"
  shows "Inv (fst (snd (iterate api columns fn xs heap dest)))"
  using assms(1)
proof (induction xs arbitrary: heap dest)
  case Nil
  then show ?case by simp
next
  case (Cons j xs)
  show ?case
  proof (cases "columns j")
    case None
    then show ?thesis using Cons.prems by simp
  next
    case (Some r)
    define h1 where "h1 = (if \<not> is_initialized api (heap r) then heap(r := force_init api (heap r)) else heap)"
    have inv1: "Inv h1"
    proof (cases "is_initialized api (heap r)")
      case True
      then show ?thesis using Cons.prems by (simp add: h1_def)
    next
      case False
      then have "h1 = heap(r := force_init api (heap r))" by (simp add: h1_def)
      moreover have "Inv (heap(r := force_init api (heap r)))"
        by (rule assms(2) [OF Cons.prems])
      ultimately show ?thesis by (simp only:)
    qed
    obtain s iter where f: "fn (h1 r) = (s, iter)" by (cases "fn (h1 r)")
    show ?thesis
    proof (cases "s = Ok")
      case True
      then have "iterate api columns fn (j # xs) heap dest
          = iterate api columns fn xs h1 (dest @ [iter])"
        using Some f by (simp add: h1_def Let_def)
      then show ?thesis using Cons.IH [OF inv1] by simp
    next
      case False
      then have "iterate api columns fn (j # xs) heap dest = (s, h1, dest)"
        using Some f by (simp add: h1_def Let_def)
      then show ?thesis using inv1 by simp
    qed
  qed
qed

lemma iterate_bad_arg:
  assumes gid: "\<forall>t. get_id (force_init api t) = get_id t"
    and pre: "\<forall>k\<in>set pre1. \<exists>q. columns k = Some q \<and> filters (get_id (heap q)) \<noteq> None"
    and col: "columns j = Some r"
    and miss: "filters (get_id (heap r)) = None"
    and fn_ok: "\<And>t. filters (get_id t) \<noteq> None \<Longrightarrow> fst (fn t) = Ok"
    and fn_bad: "\<And>t. filters (get_id t) = None \<Longrightarrow> fst (fn t) = BadArg"
  shows "bad_arg_after (length pre1) dest api r
           (iterate api columns fn (pre1 @ j # rest) heap dest)
           (iterate api columns fn pre1 heap dest)"
proof -
  let ?Inv = "\<lambda>h. \<forall>q. get_id (h q) = get_id (heap q)"
  let ?p = "iterate api columns fn pre1 heap dest"
  have step: "\<And>h q. ?Inv h \<Longrightarrow> ?Inv (h(q := force_init api (h q)))"
    using gid by simp
  have ok: "fst ?p = Ok \<and> length (snd (snd ?p)) = length dest + length pre1 \<and>
      take (length dest) (snd (snd ?p)) = dest"
  proof (rule iterate_ok [where Inv = ?Inv])
    show "?Inv heap" by simp
    show "\<And>h q. ?Inv h \<Longrightarrow> ?Inv (h(q := force_init api (h q)))" by (rule step)
    show "\<And>h k q. ?Inv h \<Longrightarrow> k \<in> set pre1 \<Longrightarrow> columns k = Some q \<Longrightarrow> fst (fn (h q)) = Ok"
      using pre fn_ok by fastforce
    show "\<forall>k\<in>set pre1. columns k \<noteq> None" using pre by auto
  qed
  have inv: "?Inv (fst (snd ?p))"
    by (rule iterate_inv [where Inv = ?Inv]) (simp_all add: gid)
  define h1 where "h1 = fst (snd ?p)"
  define h2 where "h2 = (if \<not> is_initialized api (h1 r) then h1(r := force_init api (h1 r)) else h1)"
  have "get_id (h2 r) = get_id (heap r)"
    using inv gid by (simp add: h2_def h1_def)
  then have bad: "fst (fn (h2 r)) = BadArg" using miss fn_bad by simp
  obtain s iter where f: "fn (h2 r) = (s, iter)" by (cases "fn (h2 r)")
  have s: "s = BadArg" using bad f by simp
  have "iterate api columns fn (j # rest) h1 (snd (snd ?p)) = (BadArg, h2, snd (snd ?p))"
    using col f s by (simp add: h2_def Let_def)
  moreover have "iterate api columns fn (pre1 @ j # rest) heap dest
      = iterate api columns fn (j # rest) h1 (snd (snd ?p))"
    using ok by (simp add: iterate_append Let_def h1_def)
  ultimately have "iterate api columns fn (pre1 @ j # rest) heap dest = (BadArg, h2, snd (snd ?p))"
    by simp
  then show ?thesis using ok by (simp add: bad_arg_after_def h2_def h1_def Let_def)
qed


lemma nb_api_sel:
  "is_initialized (nb_api cap) = nb_initialized"
  "force_init (nb_api cap) = (\<lambda>t. t\<lparr>nb_initialized := True\<rparr>)"
  by (simp_all add: nb_api_def)

lemma heap2_1:
  "heap2 1 = tree0\<lparr>nb_id := 2048\<rparr>"
  "heap2 (Suc 0) = tree0\<lparr>nb_id := 2048\<rparr>"
  by (simp_all add: heap2_def)

text \<open>
  Claim C9, as stated, at \<open>filter\<close> with the ids 1024 and 7, where 1024 has a column, 7
  has none and no filter is registered for 1024: the result is \<open>BadArg\<close>, raised at id
  1024, and not \<open>NotFound\<close>.
\<close>

theorem filter_BadArg_before_NotFound:
  "columns0 7 = None \<and>
   filter_values (nb_api 4) nb_id (\<lambda>flt. flt) (\<lambda>t b e flt. nb_search t b e) nb_search
       columns0 [1024, 7] 100 200 Map.empty heap0 []
     = (BadArg, heap0(0 := tree0\<lparr>nb_initialized := True\<rparr>), [])"
  by (simp add: filter_values_def example_defs)

text \<open>
  Claim C9, amended: let \<open>i\<close> be the first id of the list that has no column. Then
  \<open>scan\<close>, \<open>scan_events\<close>, \<open>filter_events\<close>, \<open>aggregate\<close> and \<open>group_aggregate\<close> return
  \<open>NotFound\<close>, stop at \<open>i\<close>, and leave in the destination vector, after its old
  content, one operator for each id before \<open>i\<close>: the state is the one the operation
  reaches on the ids before \<open>i\<close> alone. \<open>filter\<close> and \<open>group_aggfilter\<close> do the same
  provided a filter is registered for the tree of every id before \<open>i\<close> (and initializing a
  tree does not change its id). At the first id \<open>j\<close> that has a column and no filter,
  while the ids before it have both, \<open>filter\<close> and \<open>group_aggfilter\<close> return \<open>BadArg\<close>,
  whatever follows \<open>j\<close> in the list: they stop at \<open>j\<close>, having initialized its tree, and
  leave one operator for each id before \<open>j\<close>.
\<close>

theorem read_operations_NotFound:
  assumes "\<forall>j\<in>set pre. columns j \<noteq> None" and "columns i = None"
  shows
   "not_found_after (length pre) d1
      (scan api search columns (pre @ i # post) tbegin tend heap d1)
      (scan api search columns pre tbegin tend heap d1) \<and>
    not_found_after (length pre) d2
      (scan_events api search_binary columns (pre @ i # post) tbegin tend heap d2)
      (scan_events api search_binary columns pre tbegin tend heap d2) \<and>
    not_found_after (length pre) d3
      (filter_events api filter_binary columns (pre @ i # post) tbegin tend expr heap d3)
      (filter_events api filter_binary columns pre tbegin tend expr heap d3) \<and>
    not_found_after (length pre) d4
      (aggregate api tree_aggregate columns (pre @ i # post) tbegin tend heap d4)
      (aggregate api tree_aggregate columns pre tbegin tend heap d4) \<and>
    not_found_after (length pre) d5
      (group_aggregate api tree_group_aggregate columns (pre @ i # post) tbegin tend step heap d5)
      (group_aggregate api tree_group_aggregate columns pre tbegin tend step heap d5) \<and>
    ((\<forall>t. get_id (force_init api t) = get_id t) \<and>
     (\<forall>j\<in>set pre. \<forall>r. columns j = Some r \<longrightarrow> filters (get_id (heap r)) \<noteq> None) \<longrightarrow>
     not_found_after (length pre) d6
       (filter_values api get_id flt_mask tree_filter search columns (pre @ i # post)
          tbegin tend filters heap d6)
       (filter_values api get_id flt_mask tree_filter search columns pre
          tbegin tend filters heap d6)) \<and>
    ((\<forall>t. get_id (force_init api t) = get_id t) \<and>
     (\<forall>j\<in>set pre. \<forall>r. columns j = Some r \<longrightarrow> afilters (get_id (heap r)) \<noteq> None) \<longrightarrow>
     not_found_after (length pre) d7
       (group_aggfilter api get_id bitmap tree_group_aggregate_filter tree_group_aggregate
          columns (pre @ i # post) tbegin tend step afilters heap d7)
       (group_aggfilter api get_id bitmap tree_group_aggregate_filter tree_group_aggregate
          columns pre tbegin tend step afilters heap d7)) \<and>
    ((\<forall>t. get_id (force_init api t) = get_id t) \<and>
     (\<forall>k\<in>set pre1. \<exists>q. columns k = Some q \<and> filters (get_id (heap q)) \<noteq> None) \<and>
     columns j = Some r \<and> filters (get_id (heap r)) = None \<longrightarrow>
     bad_arg_after (length pre1) d8 api r
       (filter_values api get_id flt_mask tree_filter search columns (pre1 @ j # rest)
          tbegin tend filters heap d8)
       (filter_values api get_id flt_mask tree_filter search columns pre1
          tbegin tend filters heap d8)) \<and>
    ((\<forall>t. get_id (force_init api t) = get_id t) \<and>
     (\<forall>k\<in>set pre1. \<exists>q. columns k = Some q \<and> afilters (get_id (heap q)) \<noteq> None) \<and>
     columns j = Some r \<and> afilters (get_id (heap r)) = None \<longrightarrow>
     bad_arg_after (length pre1) d9 api r
       (group_aggfilter api get_id bitmap tree_group_aggregate_filter tree_group_aggregate
          columns (pre1 @ j # rest) tbegin tend step afilters heap d9)
       (group_aggfilter api get_id bitmap tree_group_aggregate_filter tree_group_aggregate
          columns pre1 tbegin tend step afilters heap d9))"
proof (intro conjI impI)
  show "not_found_after (length pre) d1
      (scan api search columns (pre @ i # post) tbegin tend heap d1)
      (scan api search columns pre tbegin tend heap d1)"
    unfolding scan_def by (rule iterate_not_found_total) (simp_all add: assms)
  show "not_found_after (length pre) d2
      (scan_events api search_binary columns (pre @ i # post) tbegin tend heap d2)
      (scan_events api search_binary columns pre tbegin tend heap d2)"
    unfolding scan_events_def by (rule iterate_not_found_total) (simp_all add: assms)
  show "not_found_after (length pre) d3
      (filter_events api filter_binary columns (pre @ i # post) tbegin tend expr heap d3)
      (filter_events api filter_binary columns pre tbegin tend expr heap d3)"
    unfolding filter_events_def by (rule iterate_not_found_total) (simp_all add: assms)
  show "not_found_after (length pre) d4
      (aggregate api tree_aggregate columns (pre @ i # post) tbegin tend heap d4)
      (aggregate api tree_aggregate columns pre tbegin tend heap d4)"
    unfolding aggregate_def by (rule iterate_not_found_total) (simp_all add: assms)
  show "not_found_after (length pre) d5
      (group_aggregate api tree_group_aggregate columns (pre @ i # post) tbegin tend step heap d5)
      (group_aggregate api tree_group_aggregate columns pre tbegin tend step heap d5)"
    unfolding group_aggregate_def by (rule iterate_not_found_total) (simp_all add: assms)
next
  assume h: "(\<forall>t. get_id (force_init api t) = get_id t) \<and>
     (\<forall>j\<in>set pre. \<forall>r. columns j = Some r \<longrightarrow> filters (get_id (heap r)) \<noteq> None)"
  show "not_found_after (length pre) d6
       (filter_values api get_id flt_mask tree_filter search columns (pre @ i # post)
          tbegin tend filters heap d6)
       (filter_values api get_id flt_mask tree_filter search columns pre
          tbegin tend filters heap d6)"
    unfolding filter_values_def
    by (rule iterate_not_found_filtered [where get_id = get_id and filters = filters])
       (use h assms in \<open>auto split: option.splits\<close>)
next
  assume h: "(\<forall>t. get_id (force_init api t) = get_id t) \<and>
     (\<forall>j\<in>set pre. \<forall>r. columns j = Some r \<longrightarrow> afilters (get_id (heap r)) \<noteq> None)"
  show "not_found_after (length pre) d7
       (group_aggfilter api get_id bitmap tree_group_aggregate_filter tree_group_aggregate
          columns (pre @ i # post) tbegin tend step afilters heap d7)
       (group_aggfilter api get_id bitmap tree_group_aggregate_filter tree_group_aggregate
          columns pre tbegin tend step afilters heap d7)"
    unfolding group_aggfilter_def
    by (rule iterate_not_found_filtered [where get_id = get_id and filters = afilters])
       (use h assms in \<open>auto split: option.splits\<close>)
next
  assume h: "(\<forall>t. get_id (force_init api t) = get_id t) \<and>
     (\<forall>k\<in>set pre1. \<exists>q. columns k = Some q \<and> filters (get_id (heap q)) \<noteq> None) \<and>
     columns j = Some r \<and> filters (get_id (heap r)) = None"
  show "bad_arg_after (length pre1) d8 api r
       (filter_values api get_id flt_mask tree_filter search columns (pre1 @ j # rest)
          tbegin tend filters heap d8)
       (filter_values api get_id flt_mask tree_filter search columns pre1
          tbegin tend filters heap d8)"
    unfolding filter_values_def
    by (rule iterate_bad_arg [where get_id = get_id and filters = filters])
       (use h in \<open>auto split: option.splits\<close>)
next
  assume h: "(\<forall>t. get_id (force_init api t) = get_id t) \<and>
     (\<forall>k\<in>set pre1. \<exists>q. columns k = Some q \<and> afilters (get_id (heap q)) \<noteq> None) \<and>
     columns j = Some r \<and> afilters (get_id (heap r)) = None"
  show "bad_arg_after (length pre1) d9 api r
       (group_aggfilter api get_id bitmap tree_group_aggregate_filter tree_group_aggregate
          columns (pre1 @ j # rest) tbegin tend step afilters heap d9)
       (group_aggfilter api get_id bitmap tree_group_aggregate_filter tree_group_aggregate
          columns pre1 tbegin tend step afilters heap d9)"
    unfolding group_aggfilter_def
    by (rule iterate_bad_arg [where get_id = get_id and filters = afilters])
       (use h in \<open>auto split: option.splits\<close>)
qed


theorem read_operations_NotFound_witness:
  "columns0 1024 = Some 0 \<and> columns0 7 = None \<and>
   (\<forall>t. nb_id (force_init (nb_api 4) t) = nb_id t) \<and>
   [1024 \<mapsto> 1::int] (nb_id (heap0 0)) \<noteq> None \<and>
   scan (nb_api 4) nb_search columns0 [1024, 7, 1024] 100 200 heap0 []
     = (NotFound, heap0(0 := tree0\<lparr>nb_initialized := True\<rparr>), [[]]) \<and>
   filter_values (nb_api 4) nb_id (\<lambda>flt. flt) (\<lambda>t b e flt. nb_search t b e) nb_search
       columns0 [1024, 7, 1024] 100 200 [1024 \<mapsto> 1] heap0 []
     = (NotFound, heap0(0 := tree0\<lparr>nb_initialized := True\<rparr>), [Some []]) \<and>
   group_aggfilter (nb_api 4) nb_id (\<lambda>flt. flt) (\<lambda>t b e s flt. nb_search t b e)
       (\<lambda>t b e s. nb_search t b e) columns0 [1024, 7, 1024] 100 200 10 [1024 \<mapsto> 1] heap0 []
     = (NotFound, heap0(0 := tree0\<lparr>nb_initialized := True\<rparr>), [Some []]) \<and>
   columns2 1024 = Some 0 \<and> columns2 2048 = Some 1 \<and> columns2 7 = None \<and>
   [1024 \<mapsto> 1::int] (nb_id (heap2 0)) \<noteq> None \<and> [1024 \<mapsto> 1::int] (nb_id (heap2 1)) = None \<and>
   filter_values (nb_api 4) nb_id (\<lambda>flt. flt) (\<lambda>t b e flt. nb_search t b e) nb_search
       columns2 [1024, 2048, 7] 100 200 [1024 \<mapsto> 1] heap2 []
     = (BadArg,
        heap2(0 := tree0\<lparr>nb_initialized := True\<rparr>,
              1 := tree0\<lparr>nb_id := 2048, nb_initialized := True\<rparr>),
        [Some []]) \<and>
   group_aggfilter (nb_api 4) nb_id (\<lambda>flt. flt) (\<lambda>t b e s flt. nb_search t b e)
       (\<lambda>t b e s. nb_search t b e) columns2 [1024, 2048, 7] 100 200 10 [1024 \<mapsto> 1] heap2 []
     = (BadArg,
        heap2(0 := tree0\<lparr>nb_initialized := True\<rparr>,
              1 := tree0\<lparr>nb_id := 2048, nb_initialized := True\<rparr>),
        [Some []])"
proof -
  let ?flt = "\<lambda>t b e (flt :: int). nb_search t b e"
  let ?gaf = "\<lambda>t b e (s :: Timestamp) (flt :: int). nb_search t b e"
  let ?ga = "\<lambda>t b e (s :: Timestamp). nb_search t b e"
  let ?init = "tree0\<lparr>nb_initialized := True\<rparr>"
  have h1: "\<forall>j\<in>set [1024]. columns0 j \<noteq> None" by (simp add: columns0_def)
  have h2: "columns0 7 = None" by (simp add: columns0_def)
  have h3: "\<forall>t. nb_id (force_init (nb_api 4) t) = nb_id t" by (simp add: nb_api_def)
  have h4: "\<forall>j\<in>set [1024]. \<forall>r. columns0 j = Some r \<longrightarrow> [1024 \<mapsto> 1::int] (nb_id (heap0 r)) \<noteq> None"
    by (simp add: columns0_def heap0_def tree0_def)
  have e1: "scan (nb_api 4) nb_search columns0 [1024] 100 200 heap0 []
     = (Ok, heap0(0 := ?init), [[]])"
    by (simp add: scan_def example_defs nb_search_def)
  have e2: "filter_values (nb_api 4) nb_id (\<lambda>flt. flt) ?flt nb_search
       columns0 [1024] 100 200 [1024 \<mapsto> 1] heap0 []
     = (Ok, heap0(0 := ?init), [Some []])"
    by (simp add: filter_values_def example_defs nb_search_def)
  have e3: "group_aggfilter (nb_api 4) nb_id (\<lambda>flt. flt) ?gaf ?ga
       columns0 [1024] 100 200 10 [1024 \<mapsto> 1] heap0 []
     = (Ok, heap0(0 := ?init), [Some []])"
    by (simp add: group_aggfilter_def example_defs nb_search_def)
  note w = read_operations_NotFound [OF h1 h2, where post = "[1024]" and api = "nb_api 4"
      and heap = heap0 and tbegin = 100 and tend = 200 and step = 10 and search = nb_search
      and ?d1.0 = "[]" and get_id = nb_id and flt_mask = "\<lambda>flt. flt" and tree_filter = ?flt
      and filters = "[1024 \<mapsto> 1]" and ?d6.0 = "[]" and bitmap = "\<lambda>flt. flt"
      and tree_group_aggregate_filter = ?gaf and tree_group_aggregate = ?ga
      and afilters = "[1024 \<mapsto> 1]" and ?d7.0 = "[]"]
  from w have "not_found_after (length [1024::ParamId]) []
      (scan (nb_api 4) nb_search columns0 ([1024] @ 7 # [1024]) 100 200 heap0 [])
      (scan (nb_api 4) nb_search columns0 [1024] 100 200 heap0 [])"
    by (rule conjunct1)
  then have s: "scan (nb_api 4) nb_search columns0 [1024, 7, 1024] 100 200 heap0 []
     = (NotFound, heap0(0 := ?init), [[]])"
    by (simp add: not_found_after_def e1)
  from w h3 h4 have "not_found_after (length [1024::ParamId]) []
       (filter_values (nb_api 4) nb_id (\<lambda>flt. flt) ?flt nb_search
          columns0 ([1024] @ 7 # [1024]) 100 200 [1024 \<mapsto> 1] heap0 [])
       (filter_values (nb_api 4) nb_id (\<lambda>flt. flt) ?flt nb_search
          columns0 [1024] 100 200 [1024 \<mapsto> 1] heap0 [])"
    by blast
  then have f: "filter_values (nb_api 4) nb_id (\<lambda>flt. flt) ?flt nb_search
       columns0 [1024, 7, 1024] 100 200 [1024 \<mapsto> 1] heap0 []
     = (NotFound, heap0(0 := ?init), [Some []])"
    by (simp add: not_found_after_def e2)
  from w h3 h4 have "not_found_after (length [1024::ParamId]) []
       (group_aggfilter (nb_api 4) nb_id (\<lambda>flt. flt) ?gaf ?ga
          columns0 ([1024] @ 7 # [1024]) 100 200 10 [1024 \<mapsto> 1] heap0 [])
       (group_aggfilter (nb_api 4) nb_id (\<lambda>flt. flt) ?gaf ?ga
          columns0 [1024] 100 200 10 [1024 \<mapsto> 1] heap0 [])"
    by blast
  then have g: "group_aggfilter (nb_api 4) nb_id (\<lambda>flt. flt) ?gaf ?ga
       columns0 [1024, 7, 1024] 100 200 10 [1024 \<mapsto> 1] heap0 []
     = (NotFound, heap0(0 := ?init), [Some []])"
    by (simp add: not_found_after_def e3)
  have k1: "\<forall>j\<in>set [1024, 2048]. columns2 j \<noteq> None" by (simp add: columns2_def)
  have k2: "columns2 7 = None" by (simp add: columns2_def)
  have k3: "(\<forall>t. nb_id (force_init (nb_api 4) t) = nb_id t) \<and>
     (\<forall>k\<in>set [1024]. \<exists>q. columns2 k = Some q \<and> [1024 \<mapsto> 1::int] (nb_id (heap2 q)) \<noteq> None) \<and>
     columns2 2048 = Some 1 \<and> [1024 \<mapsto> 1::int] (nb_id (heap2 1)) = None"
    by (simp add: nb_api_def columns2_def heap2_def heap0_def tree0_def)
  have e4: "filter_values (nb_api 4) nb_id (\<lambda>flt. flt) ?flt nb_search
       columns2 [1024] 100 200 [1024 \<mapsto> 1] heap2 []
     = (Ok, heap2(0 := ?init), [Some []])"
    by (simp add: filter_values_def example_defs nb_search_def columns2_def heap2_def)
  have e5: "group_aggfilter (nb_api 4) nb_id (\<lambda>flt. flt) ?gaf ?ga
       columns2 [1024] 100 200 10 [1024 \<mapsto> 1] heap2 []
     = (Ok, heap2(0 := ?init), [Some []])"
    by (simp add: group_aggfilter_def example_defs nb_search_def columns2_def heap2_def)
  note v = read_operations_NotFound [OF k1 k2, where api = "nb_api 4" and heap = heap2
      and tbegin = 100 and tend = 200 and step = 10 and search = nb_search
      and get_id = nb_id and flt_mask = "\<lambda>flt. flt" and tree_filter = ?flt
      and filters = "[1024 \<mapsto> 1]" and bitmap = "\<lambda>flt. flt"
      and tree_group_aggregate_filter = ?gaf and tree_group_aggregate = ?ga
      and afilters = "[1024 \<mapsto> 1]" and ?pre1.0 = "[1024]" and j = 2048 and r = 1
      and rest = "[7]" and ?d8.0 = "[]" and ?d9.0 = "[]"]
  from v k3 have "bad_arg_after (length [1024::ParamId]) [] (nb_api 4) 1
       (filter_values (nb_api 4) nb_id (\<lambda>flt. flt) ?flt nb_search
          columns2 ([1024] @ 2048 # [7]) 100 200 [1024 \<mapsto> 1] heap2 [])
       (filter_values (nb_api 4) nb_id (\<lambda>flt. flt) ?flt nb_search
          columns2 [1024] 100 200 [1024 \<mapsto> 1] heap2 [])"
    by blast
  then have "filter_values (nb_api 4) nb_id (\<lambda>flt. flt) ?flt nb_search
          columns2 ([1024] @ 2048 # [7]) 100 200 [1024 \<mapsto> 1] heap2 []
      = (BadArg,
         (let h = heap2(0 := ?init)
          in if \<not> is_initialized (nb_api 4) (h 1) then h(1 := force_init (nb_api 4) (h 1)) else h),
         [Some []])"
    unfolding bad_arg_after_def by (simp only: e4 fst_conv snd_conv)
  then have fb: "filter_values (nb_api 4) nb_id (\<lambda>flt. flt) ?flt nb_search
       columns2 [1024, 2048, 7] 100 200 [1024 \<mapsto> 1] heap2 []
     = (BadArg, heap2(0 := ?init, 1 := tree0\<lparr>nb_id := 2048, nb_initialized := True\<rparr>),
        [Some []])"
    by (simp add: Let_def nb_api_sel heap2_1 tree0_def)
  from v k3 have "bad_arg_after (length [1024::ParamId]) [] (nb_api 4) 1
       (group_aggfilter (nb_api 4) nb_id (\<lambda>flt. flt) ?gaf ?ga
          columns2 ([1024] @ 2048 # [7]) 100 200 10 [1024 \<mapsto> 1] heap2 [])
       (group_aggfilter (nb_api 4) nb_id (\<lambda>flt. flt) ?gaf ?ga
          columns2 [1024] 100 200 10 [1024 \<mapsto> 1] heap2 [])"
    by blast
  then have "group_aggfilter (nb_api 4) nb_id (\<lambda>flt. flt) ?gaf ?ga
          columns2 ([1024] @ 2048 # [7]) 100 200 10 [1024 \<mapsto> 1] heap2 []
      = (BadArg,
         (let h = heap2(0 := ?init)
          in if \<not> is_initialized (nb_api 4) (h 1) then h(1 := force_init (nb_api 4) (h 1)) else h),
         [Some []])"
    unfolding bad_arg_after_def by (simp only: e5 fst_conv snd_conv)
  then have gb: "group_aggfilter (nb_api 4) nb_id (\<lambda>flt. flt) ?gaf ?ga
       columns2 [1024, 2048, 7] 100 200 10 [1024 \<mapsto> 1] heap2 []
     = (BadArg, heap2(0 := ?init, 1 := tree0\<lparr>nb_id := 2048, nb_initialized := True\<rparr>),
        [Some []])"
    by (simp add: Let_def nb_api_sel heap2_1 tree0_def)
  have c: "columns0 1024 = Some 0 \<and> [1024 \<mapsto> 1::int] (nb_id (heap0 0)) \<noteq> None"
    by (simp add: columns0_def heap0_def tree0_def)
  have c2: "columns2 1024 = Some 0 \<and> columns2 2048 = Some 1 \<and>
      [1024 \<mapsto> 1::int] (nb_id (heap2 0)) \<noteq> None \<and> [1024 \<mapsto> 1::int] (nb_id (heap2 1)) = None"
    by (simp add: columns2_def heap2_def heap0_def tree0_def)
  show ?thesis using c h2 h3 s f g c2 k2 fb gb by blast
qed

lemma iterate_collect:
  assumes "Inv heap"
    and "\<And>h r. Inv h \<Longrightarrow> Inv (h(r := force_init api (h r)))"
    and "\<And>h j r. Inv h \<Longrightarrow> j \<in> set xs \<Longrightarrow> columns j = Some r \<Longrightarrow> fn (h r) = (Ok, g j)"
    and "\<forall>j\<in>set xs. columns j \<noteq> None"
  shows "fst (iterate api columns fn xs heap dest) = Ok \<and>
         snd (snd (iterate api columns fn xs heap dest)) = dest @ map g xs"
  using assms
proof (induction xs arbitrary: heap dest)
  case Nil
  then show ?case by simp
next
  case (Cons j xs)
  from Cons.prems(4) obtain r where r: "columns j = Some r" by auto
  define h1 where "h1 = (if \<not> is_initialized api (heap r) then heap(r := force_init api (heap r)) else heap)"
  have inv1: "Inv h1"
  proof (cases "is_initialized api (heap r)")
    case True
    then show ?thesis using Cons.prems(1) by (simp add: h1_def)
  next
    case False
    then have "h1 = heap(r := force_init api (heap r))" by (simp add: h1_def)
    moreover have "Inv (heap(r := force_init api (heap r)))"
      by (rule Cons.prems(2) [OF Cons.prems(1)])
    ultimately show ?thesis by (simp only:)
  qed
  have it: "fn (h1 r) = (Ok, g j)" using Cons.prems(3) [OF inv1 _ r] by simp
  have step: "iterate api columns fn (j # xs) heap dest = iterate api columns fn xs h1 (dest @ [g j])"
    using r it by (simp add: h1_def Let_def)
  have IH: "fst (iterate api columns fn xs h1 (dest @ [g j])) = Ok \<and>
         snd (snd (iterate api columns fn xs h1 (dest @ [g j]))) = (dest @ [g j]) @ map g xs"
  proof (rule Cons.IH [OF inv1])
    show "\<And>h r. Inv h \<Longrightarrow> Inv (h(r := force_init api (h r)))"
      by (rule Cons.prems(2))
    show "\<And>h ja r. Inv h \<Longrightarrow> ja \<in> set xs \<Longrightarrow> columns ja = Some r \<Longrightarrow> fn (h r) = (Ok, g ja)"
      by (rule Cons.prems(3)) simp_all
    show "\<forall>j\<in>set xs. columns j \<noteq> None"
      using Cons.prems(4) by simp
  qed
  show ?case using IH step by simp
qed

lemma map_fst_filter: "map fst (filter (\<lambda>p. P (fst p)) xs) = filter P (map fst xs)"
  by (induction xs) auto

lemma nb_search_ascending:
  assumes "sorted (map fst (nb_points t))" and "tbegin < tend"
  shows "sorted (map fst (nb_search t tbegin tend)) \<and>
         mset (map fst (nb_search t tbegin tend))
           = mset (filter (\<lambda>ts. tbegin \<le> ts \<and> ts < tend) (map fst (nb_points t)))"
proof -
  have "map fst (nb_search t tbegin tend)
      = filter (\<lambda>ts. tbegin \<le> ts \<and> ts < tend) (map fst (nb_points t))"
    using assms(2) map_fst_filter [of "\<lambda>ts. tbegin \<le> ts \<and> ts < tend" "nb_points t"]
    by (simp add: nb_search_def)
  then show ?thesis using assms(1) by (simp add: sorted_wrt_filter)
qed

lemma nb_search_descending:
  assumes "sorted (map fst (nb_points t))" and "tend < tbegin"
  shows "sorted (rev (map fst (nb_search t tbegin tend))) \<and>
         mset (map fst (nb_search t tbegin tend))
           = mset (filter (\<lambda>ts. tend < ts \<and> ts \<le> tbegin) (map fst (nb_points t)))"
proof -
  have "\<not> tbegin < tend" using assms(2) by simp
  then have "map fst (nb_search t tbegin tend)
      = rev (filter (\<lambda>ts. tend < ts \<and> ts \<le> tbegin) (map fst (nb_points t)))"
    using assms(2) map_fst_filter [of "\<lambda>ts. tend < ts \<and> ts \<le> tbegin" "nb_points t"]
    by (simp add: nb_search_def rev_map [symmetric])
  then show ?thesis using assms(1) by (simp add: sorted_wrt_filter)
qed

text \<open>
  Appending keeps the points of the reference tree in timestamp order, so the trees that
  \<open>search\<close> meets are ordered.
\<close>

lemma sorted_le_last:
  "sorted xs \<Longrightarrow> y \<in> set xs \<Longrightarrow> y \<le> (last xs :: 'a :: linorder)"
  by (induction xs) auto

lemma sorted_snoc_last:
  assumes "sorted xs" and "xs = [] \<or> last xs \<le> (x :: 'a :: linorder)"
  shows "sorted (xs @ [x])"
proof -
  have "y \<le> x" if "y \<in> set xs" for y
  proof -
    have "xs \<noteq> []" using that by auto
    then have "last xs \<le> x" using assms(2) by simp
    moreover have "y \<le> last xs" using assms(1) that by (rule sorted_le_last)
    ultimately show ?thesis by simp
  qed
  then show ?thesis using assms(1) by (simp add: sorted_append)
qed

lemma nb_append_sorted:
  assumes "sorted (map fst (nb_points t))"
  shows "sorted (map fst (nb_points (snd (nb_append cap t ts v))))"
proof (cases "nb_points t \<noteq> [] \<and> ts < fst (last (nb_points t))")
  case True
  then show ?thesis using assms by (simp add: nb_append_def)
next
  case False
  have "map fst (nb_points t) = [] \<or> last (map fst (nb_points t)) \<le> ts"
  proof (cases "nb_points t = []")
    case True
    then show ?thesis by simp
  next
    case nonempty: False
    then have "\<not> ts < fst (last (nb_points t))" using False by simp
    then show ?thesis using nonempty by (simp add: last_map)
  qed
  with assms have "sorted (map fst (nb_points t) @ [ts])"
    by (rule sorted_snoc_last)
  then show ?thesis using False by (auto simp: nb_append_def Let_def)
qed

lemma nb_append_recovery_sorted:
  assumes "sorted (map fst (nb_points t))"
  shows "sorted (map fst (nb_points (snd (nb_append_recovery cap t ts v allow_duplicates))))"
  using assms nb_append_sorted [OF assms] by (simp add: nb_append_recovery_def)

text \<open>
  Claim C1: on a series stored in timestamp order, \<open>search(begin, end)\<close> yields for
  \<open>begin < end\<close> exactly the stored timestamps of \<open>[begin, end)\<close> in ascending order, and
  for \<open>begin > end\<close> exactly those of \<open>(end, begin]\<close> in descending order; \<open>ColumnStore::scan\<close>
  over ids that all have columns returns \<open>Ok\<close> and appends one such result per id, in the
  order of the ids.
\<close>

theorem search_ordered_half_open:
  assumes "\<forall>j\<in>set ids. \<exists>r. columns j = Some r \<and> sorted (map fst (nb_points (heap r)))"
  shows
   "fst (scan (nb_api cap) nb_search columns ids tbegin tend heap dest) = Ok \<and>
    snd (snd (scan (nb_api cap) nb_search columns ids tbegin tend heap dest))
      = dest @ map (\<lambda>j. nb_search (heap (the (columns j))) tbegin tend) ids \<and>
    (\<forall>j\<in>set ids.
       (tbegin < tend \<longrightarrow>
          sorted (map fst (nb_search (heap (the (columns j))) tbegin tend)) \<and>
          mset (map fst (nb_search (heap (the (columns j))) tbegin tend))
            = mset (filter (\<lambda>ts. tbegin \<le> ts \<and> ts < tend)
                      (map fst (nb_points (heap (the (columns j))))))) \<and>
       (tend < tbegin \<longrightarrow>
          sorted (rev (map fst (nb_search (heap (the (columns j))) tbegin tend))) \<and>
          mset (map fst (nb_search (heap (the (columns j))) tbegin tend))
            = mset (filter (\<lambda>ts. tend < ts \<and> ts \<le> tbegin)
                      (map fst (nb_points (heap (the (columns j))))))))"
proof -
  have scan: "fst (iterate (nb_api cap) columns (\<lambda>elist. (Ok, nb_search elist tbegin tend)) ids heap dest) = Ok \<and>
      snd (snd (iterate (nb_api cap) columns (\<lambda>elist. (Ok, nb_search elist tbegin tend)) ids heap dest))
        = dest @ map (\<lambda>j. nb_search (heap (the (columns j))) tbegin tend) ids"
  proof (rule iterate_collect [where Inv = "\<lambda>h. \<forall>r. nb_points (h r) = nb_points (heap r)"])
    show "\<forall>r. nb_points (heap r) = nb_points (heap r)" by simp
    show "\<And>h r. \<forall>r. nb_points (h r) = nb_points (heap r) \<Longrightarrow>
            \<forall>ra. nb_points ((h(r := force_init (nb_api cap) (h r))) ra) = nb_points (heap ra)"
      by (simp add: nb_api_def)
    show "\<And>h j r. \<forall>r. nb_points (h r) = nb_points (heap r) \<Longrightarrow> j \<in> set ids \<Longrightarrow>
            columns j = Some r \<Longrightarrow>
            (Ok, nb_search (h r) tbegin tend) = (Ok, nb_search (heap (the (columns j))) tbegin tend)"
      by (simp add: nb_search_def)
    show "\<forall>j\<in>set ids. columns j \<noteq> None" using assms by auto
  qed
  have pts: "\<forall>j\<in>set ids. sorted (map fst (nb_points (heap (the (columns j)))))"
    using assms by auto
  show ?thesis
    using scan pts nb_search_ascending nb_search_descending
    unfolding scan_def by blast
qed

theorem search_ordered_half_open_witness:
  "columns0 1024 = Some 0 \<and> sorted (map fst (nb_points (heap1 0))) \<and>
   snd (snd (scan (nb_api 4) nb_search columns0 [1024] 100 200 heap1 []))
     = [[(100, 1), (150, 2)]] \<and>
   snd (snd (scan (nb_api 4) nb_search columns0 [1024] 200 100 heap1 []))
     = [[(200, 3), (150, 2)]] \<and>
   sorted (map fst [(100, 1), (150, 2) :: Timestamp \<times> double]) \<and>
   sorted (rev (map fst [(200, 3), (150, 2) :: Timestamp \<times> double]))"
proof -
  have h: "\<forall>j\<in>set [1024]. \<exists>r. columns0 j = Some r \<and> sorted (map fst (nb_points (heap1 r)))"
    by (simp add: columns0_def heap1_def tree0_def)
  have s: "nb_search (heap1 (the (columns0 1024))) 100 200 = [(100, 1), (150, 2)]"
    by (simp add: nb_search_def heap1_def tree0_def)
  have r: "nb_search (heap1 (the (columns0 1024))) 200 100 = [(200, 3), (150, 2)]"
    by (simp add: nb_search_def heap1_def tree0_def)
  have c: "columns0 1024 = Some 0 \<and> sorted (map fst (nb_points (heap1 0)))"
    by (simp add: columns0_def heap1_def tree0_def)
  show ?thesis
    using c s r search_ordered_half_open [OF h, of 4 100 200 "[]"]
      search_ordered_half_open [OF h, of 4 200 100 "[]"]
    by simp
qed

section \<open>The timestamp of an OpenTSDB put\<close>

lemma isdigit_not_space: "isdigit c \<Longrightarrow> \<not> isspace c"
  by (auto simp: isdigit_def isspace_def)

lemma isdigit_not_sign: "isdigit c \<Longrightarrow> c \<noteq> CHR ''-'' \<and> c \<noteq> CHR ''+''"
  by (auto simp: isdigit_def)

lemma strtoull_digits_foldl:
  "\<forall>c\<in>set ds. isdigit c \<Longrightarrow>
   strtoull_digits acc ds = foldl (\<lambda>a c. a * 10 + digit_value c) acc ds"
  by (induction ds arbitrary: acc) auto

lemma strtoull_decimal:
  assumes "\<forall>c\<in>set ds. isdigit c" and "decimal ds < 2 ^ 64"
  shows "strtoull ds = of_nat (decimal ds)"
proof -
  have d: "dropWhile isspace ds = ds"
    using assms(1) by (cases ds) (auto simp: isdigit_not_space)
  have s: "(ds \<noteq> [] \<and> (hd ds = CHR ''-'' \<or> hd ds = CHR ''+'')) = False"
    using assms(1) isdigit_not_sign by (cases ds) auto
  have n: "(ds \<noteq> [] \<and> hd ds = CHR ''-'') = False"
    using s by auto
  have v: "strtoull_digits 0 ds = decimal ds"
    using assms(1) by (simp add: strtoull_digits_foldl decimal_def)
  have m: "(ULLONG_MAX < decimal ds) = False" using assms(2) by (simp add: ULLONG_MAX_def)
  show ?thesis by (simp only: strtoull_def Let_def d s n v m if_False)
qed

lemma u64_of_nat_less:
  assumes "v < 2 ^ 64"
  shows "((of_nat v :: u64) < 0xFFFFFFFF) = (v < 4294967295)"
    and "((of_nat v :: u64) = 0) = (v = 0)"
proof -
  have u: "unat (of_nat v :: u64) = v" using assms by (simp add: unat_of_nat)
  have "((of_nat v :: u64) < 0xFFFFFFFF) = (unat (of_nat v :: u64) < unat (0xFFFFFFFF :: u64))"
    by (rule word_less_nat_alt)
  then show "((of_nat v :: u64) < 0xFFFFFFFF) = (v < 4294967295)" using u by simp
  have "((of_nat v :: u64) = 0) = (unat (of_nat v :: u64) = 0)" by (simp add: unat_eq_zero)
  then show "((of_nat v :: u64) = 0) = (v = 0)" using u by simp
qed

text \<open>
  Claim C6, as stated, at the token \<open>4294967295\<close>: the value is below \<open>2^32\<close>, and the
  timestamp of the sample is 4294967295 itself, not the 4294967295000000000 nanoseconds
  that 4294967295 seconds make.
\<close>

theorem put_timestamp_0xFFFFFFFF:
  "decimal ''4294967295'' < 2 ^ 32 \<and>
   put_timestamp (\<lambda>_. None) ''4294967295 3.12 host=a'' 10 = Inr 4294967295 \<and>
   from_unix_time 4294967295 = 4294967295000000000"
  by (simp add: put_timestamp_def strtoull_def isspace_def isdigit_def digit_value_def
      ULLONG_MAX_def decimal_def from_unix_time_def Let_def)

text \<open>
  Claim C6, amended: for a timestamp token of decimal digits whose value \<open>v\<close> fits 64
  bits, a value with \<open>0 < v < 2^32 - 1\<close> is taken as seconds since the epoch and becomes
  \<open>v * 10^9\<close> nanoseconds (without overflow); a value \<open>v \<ge> 2^32 - 1\<close> is the timestamp
  in nanoseconds, unchanged; the value 0 is not taken as a number: the token goes to the
  ISO timestamp parser, and the put fails with "invalid timestamp format" when that
  parser rejects it.
\<close>

theorem put_timestamp_threshold:
  assumes "\<forall>c\<in>set ds. isdigit c" and "decimal ds < 2 ^ 64"
  shows
   "(0 < decimal ds \<and> decimal ds < 2 ^ 32 - 1 \<longrightarrow>
       put_timestamp parse_timestamp (ds @ rest) (length ds)
         = Inr (of_nat (decimal ds * 1000000000)) \<and>
       decimal ds * 1000000000 < 2 ^ 64) \<and>
    (2 ^ 32 - 1 \<le> decimal ds \<longrightarrow>
       put_timestamp parse_timestamp (ds @ rest) (length ds) = Inr (of_nat (decimal ds))) \<and>
    (decimal ds = 0 \<longrightarrow>
       put_timestamp parse_timestamp (ds @ rest) (length ds)
         = (case parse_timestamp (ds @ rest) of
              Some ts \<Rightarrow> Inr ts
            | None \<Rightarrow> Inl ''put: invalid timestamp format''))"
proof -
  have r: "strtoull ds = of_nat (decimal ds)"
    using assms by (rule strtoull_decimal)
  note c = u64_of_nat_less [OF assms(2)]
  have sec: "put_timestamp parse_timestamp (ds @ rest) (length ds)
         = Inr (of_nat (decimal ds * 1000000000)) \<and> decimal ds * 1000000000 < 2 ^ 64"
    if "0 < decimal ds \<and> decimal ds < 2 ^ 32 - 1"
    using that by (simp add: put_timestamp_def r c Let_def from_unix_time_def)
  have ns: "put_timestamp parse_timestamp (ds @ rest) (length ds) = Inr (of_nat (decimal ds))"
    if "2 ^ 32 - 1 \<le> decimal ds"
    using that by (simp add: put_timestamp_def r c Let_def)
  have zero: "put_timestamp parse_timestamp (ds @ rest) (length ds)
         = (case parse_timestamp (ds @ rest) of
              Some ts \<Rightarrow> Inr ts
            | None \<Rightarrow> Inl ''put: invalid timestamp format'')"
    if "decimal ds = 0"
    using that by (simp add: put_timestamp_def r Let_def split: option.splits)
  show ?thesis using sec ns zero by blast
qed

theorem put_timestamp_threshold_witness:
  "list_all isdigit ''1479600574'' \<and> decimal ''1479600574'' < 2 ^ 64 \<and>
   0 < decimal ''1479600574'' \<and> decimal ''1479600574'' < 2 ^ 32 - 1 \<and>
   put_timestamp (\<lambda>_. None) (''1479600574'' @ '' 0 type=fake'') (length ''1479600574'')
     = Inr 1479600574000000000 \<and>
   list_all isdigit ''1479600574000000000'' \<and> decimal ''1479600574000000000'' < 2 ^ 64 \<and>
   2 ^ 32 - 1 \<le> decimal ''1479600574000000000'' \<and>
   put_timestamp (\<lambda>_. None) (''1479600574000000000'' @ '' 0 type=fake'')
       (length ''1479600574000000000'')
     = Inr 1479600574000000000 \<and>
   list_all isdigit ''0'' \<and> decimal ''0'' = 0 \<and>
   put_timestamp (\<lambda>_. None) (''0'' @ '' 0 type=fake'') (length ''0'')
     = Inl ''put: invalid timestamp format''"
proof -
  have a1: "\<forall>c\<in>set ''1479600574''. isdigit c" by (simp add: isdigit_def)
  have a2: "decimal ''1479600574'' = 1479600574" by (simp add: decimal_def digit_value_def)
  have b1: "\<forall>c\<in>set ''1479600574000000000''. isdigit c" by (simp add: isdigit_def)
  have b2: "decimal ''1479600574000000000'' = 1479600574000000000"
    by (simp add: decimal_def digit_value_def)
  have c1: "\<forall>c\<in>set ''0''. isdigit c" by (simp add: isdigit_def)
  have c2: "decimal ''0'' = 0" by (simp add: decimal_def digit_value_def)
  have a3: "decimal ''1479600574'' < 2 ^ 64" by (simp add: a2)
  have b3: "decimal ''1479600574000000000'' < 2 ^ 64" by (simp add: b2)
  have c3: "decimal ''0'' < 2 ^ 64" by (simp add: c2)
  have l: "list_all isdigit ''1479600574'' \<and> list_all isdigit ''1479600574000000000'' \<and>
      list_all isdigit ''0''"
    by (simp add: isdigit_def)
  show ?thesis
    using l a2 a3 b2 b3 c2
      put_timestamp_threshold [OF a1 a3, of "\<lambda>_. None" "'' 0 type=fake''"]
      put_timestamp_threshold [OF b1 b3, of "\<lambda>_. None" "'' 0 type=fake''"]
      put_timestamp_threshold [OF c1 c3, of "\<lambda>_. None" "'' 0 type=fake''"]
    by simp
qed

section \<open>The cursor contract\<close>

lemma run_query_calls:
  "run_query cur steps c = Some (calls, c1) \<Longrightarrow>
   length (filter terminating calls) = 1 \<and> calls \<noteq> [] \<and> terminating (last calls)"
proof (induction cur steps c arbitrary: calls c1 rule: run_query.induct)
  case (1 cur c)
  then show ?case by auto
next
  case (2 cur s rest c)
  then show ?case
    by (auto split: option.splits prod.splits if_splits)
next
  case (3 cur st rest c)
  then show ?case by auto
next
  case (4 cur cancelled rest c)
  then show ?case by (auto split: if_splits)
qed

lemma run_query_CursorMock:
  "\<not> is_done m \<Longrightarrow>
   \<exists>calls m1. run_query CursorMock_cursor steps m = Some (calls, m1) \<and> is_done m1"
proof (induction steps arbitrary: m)
  case Nil
  then show ?case by (simp add: CursorMock_cursor_def mock_complete_def)
next
  case (Cons step steps)
  show ?case
  proof (cases step)
    case (Emit s)
    let ?m = "m\<lparr>samples := samples m @ [s\<lparr>payload := (payload s)\<lparr>pdata := []\<rparr>\<rparr>]\<rparr>"
    have "\<not> is_done ?m" using Cons.prems by simp
    from Cons.IH [OF this] obtain calls m1 where
      "run_query CursorMock_cursor steps ?m = Some (calls, m1)"
      "is_done m1" by blast
    then show ?thesis using Emit Cons.prems
      by (simp add: CursorMock_cursor_def mock_put_def)
  next
    case (Fail st)
    then show ?thesis using Cons.prems
      by (simp add: CursorMock_cursor_def mock_set_error_def)
  next
    case (Batch_end cancelled)
    then show ?thesis using Cons.prems Cons.IH [OF Cons.prems]
      by (cases cancelled) (simp_all add: CursorMock_cursor_def mock_set_error_def)
  qed
qed

text \<open>
  Claim C5: in every run of a query the calls made on the cursor contain exactly one
  terminating call (\<open>complete\<close> or \<open>set_error\<close>), and it is the last call, so no \<open>put\<close>
  follows it; and on a fresh \<open>CursorMock\<close> every run returns, without breaking the
  invariant the mock checks, and leaves the cursor done.
\<close>

theorem cursor_terminated_exactly_once:
  "(\<forall>calls c1. run_query cur steps c = Some (calls, c1) \<longrightarrow>
      length (filter terminating calls) = 1 \<and> calls \<noteq> [] \<and> terminating (last calls)) \<and>
   (\<exists>calls m. run_query CursorMock_cursor steps CursorMock_init = Some (calls, m) \<and> is_done m)"
  using run_query_calls [of cur steps c] run_query_CursorMock [of CursorMock_init steps]
  by (simp add: CursorMock_init_def)

theorem cursor_terminated_exactly_once_witness:
  "run_query CursorMock_cursor [Emit float_sample, Batch_end False, Emit event_sample, Fail BadArg,
       Emit other_sample] CursorMock_init
     = Some ([Put float_sample, Put event_sample, SetError BadArg],
             \<lparr>is_done = True,
              samples = [float_sample, event_sample\<lparr>payload := (payload event_sample)\<lparr>pdata := []\<rparr>\<rparr>],
              error = BadArg, error_msg = []\<rparr>) \<and>
   length (filter terminating [Put float_sample, Put event_sample, SetError BadArg]) = 1 \<and>
   terminating (last [Put float_sample, Put event_sample, SetError BadArg])"
proof -
  have r: "run_query CursorMock_cursor [Emit float_sample, Batch_end False, Emit event_sample,
       Fail BadArg, Emit other_sample] CursorMock_init
     = Some ([Put float_sample, Put event_sample, SetError BadArg],
             \<lparr>is_done = True,
              samples = [float_sample, event_sample\<lparr>payload := (payload event_sample)\<lparr>pdata := []\<rparr>\<rparr>],
              error = BadArg, error_msg = []\<rparr>)"
    by (simp add: CursorMock_cursor_def CursorMock_init_def mock_put_def mock_set_error_def
        float_sample_def)
  show ?thesis
    using r cursor_terminated_exactly_once [of CursorMock_cursor
        "[Emit float_sample, Batch_end False, Emit event_sample, Fail BadArg, Emit other_sample]"
        CursorMock_init]
    by simp
qed

end
